theory Spec2Isabelle
  imports Main
begin

section \<open>Orders view: data model\<close>

text \<open>
  The embedding follows \<^verbatim>\<open>src/components/orders/orders.tsx\<close>. Identifiers, order
  numbers and statuses are JavaScript strings; a rating is a JavaScript number, modelled
  as an integer. A value that may be \<^verbatim>\<open>null\<close> or \<^verbatim>\<open>undefined\<close> is an option.
\<close>

record order_item =
  productId :: string
  productName :: string

record order =
  order_id :: string
  orderNumber :: string
  status :: string
  items :: "order_item list"

record product =
  product_id :: string
  averageRating :: int

text \<open>One entry of \<^verbatim>\<open>allOrderItems\<close>: the object \<^verbatim>\<open>{ productId, orderNumber }\<close>.\<close>

record item_ref =
  ref_productId :: string
  ref_orderNumber :: string

section \<open>Status presentation (getStatusIcon, getStatusVariant, getStatusText)\<close>

datatype glyph = CheckCircle | Truck | Package | Clock | XCircle

record icon =
  icon_glyph :: glyph
  icon_className :: string
  icon_size :: nat

definition getStatusIcon :: "string \<Rightarrow> icon" where
  "getStatusIcon st =
     (if st = ''delivered'' then
        \<lparr>icon_glyph = CheckCircle, icon_className = ''text-success'', icon_size = 20\<rparr>
      else if st = ''out_for_delivery'' then
        \<lparr>icon_glyph = Truck, icon_className = ''text-info'', icon_size = 20\<rparr>
      else if st = ''preparing'' then
        \<lparr>icon_glyph = Package, icon_className = ''text-warning'', icon_size = 20\<rparr>
      else if st = ''confirmed'' then
        \<lparr>icon_glyph = Clock, icon_className = ''text-info'', icon_size = 20\<rparr>
      else if st = ''cancelled'' then
        \<lparr>icon_glyph = XCircle, icon_className = ''text-destructive'', icon_size = 20\<rparr>
      else if st = ''refunded'' then
        \<lparr>icon_glyph = XCircle, icon_className = ''text-muted-foreground'', icon_size = 20\<rparr>
      else
        \<lparr>icon_glyph = Clock, icon_className = ''text-muted-foreground'', icon_size = 20\<rparr>)"

definition getStatusVariant :: "string \<Rightarrow> string" where
  "getStatusVariant st =
     (if st = ''delivered'' then ''default''
      else if st = ''out_for_delivery'' then ''secondary''
      else if st = ''preparing'' then ''outline''
      else if st = ''confirmed'' then ''secondary''
      else if st = ''cancelled'' \<or> st = ''refunded'' then ''destructive''
      else ''outline'')"

definition getStatusText :: "string \<Rightarrow> string" where
  "getStatusText st =
     (if st = ''delivered'' then ''Delivered''
      else if st = ''out_for_delivery'' then ''Out for Delivery''
      else if st = ''preparing'' then ''Preparing''
      else if st = ''confirmed'' then ''Confirmed''
      else if st = ''cancelled'' then ''Cancelled''
      else if st = ''placed'' then ''Order Placed''
      else if st = ''refunded'' then ''Refunded''
      else st)"

text \<open>
  The statuses that the data model enumerates for an order, the values of the type
  \<^verbatim>\<open>Order["status"]\<close>: the label switch has one case for each of them.
\<close>

definition order_statuses :: "string list" where
  "order_statuses =
     [''placed'', ''confirmed'', ''preparing'', ''out_for_delivery'', ''delivered'',
      ''cancelled'', ''refunded'']"

definition neutral_icon :: icon where
  "neutral_icon =
     \<lparr>icon_glyph = Clock, icon_className = ''text-muted-foreground'', icon_size = 20\<rparr>"

section \<open>JavaScript values\<close>

text \<open>
  Truthiness of a \<^verbatim>\<open>number | undefined\<close> and of a \<^verbatim>\<open>string | undefined\<close>: the number
  \<^verbatim>\<open>0\<close>, the empty string and \<^verbatim>\<open>undefined\<close> are falsy.
\<close>

definition truthy_num :: "int option \<Rightarrow> bool" where
  "truthy_num v = (case v of None \<Rightarrow> False | Some n \<Rightarrow> n \<noteq> 0)"

text \<open>\<^verbatim>\<open>user?.uid\<close>: the uid when a user is present and the uid is a non-empty string.\<close>

definition truthy_uid :: "string option \<Rightarrow> string option" where
  "truthy_uid u = (case u of None \<Rightarrow> None | Some uid \<Rightarrow> if uid = [] then None else Some uid)"

text \<open>Decimal rendering of a number inside a template literal.\<close>

definition digit_chars :: string where
  "digit_chars = ''0123456789''"

function string_of_nat :: "nat \<Rightarrow> string" where
  "string_of_nat n =
     (if n < 10 then [digit_chars ! n]
      else string_of_nat (n div 10) @ [digit_chars ! (n mod 10)])"
  by pat_completeness auto
termination
  by (relation "measure id") auto

declare string_of_nat.simps [simp del]

definition string_of_int :: "int \<Rightarrow> string" where
  "string_of_int i = (if i < 0 then ''-'' @ string_of_nat (nat (- i)) else string_of_nat (nat i))"

text \<open>The settlement of a promise: it resolves with a value or it rejects.\<close>

datatype 'a outcome = Resolved 'a | Rejected

text \<open>\<^verbatim>\<open>Promise.all\<close>: rejects as soon as one promise rejects, else resolves with all values.\<close>

fun promise_all :: "'a outcome list \<Rightarrow> 'a list outcome" where
  "promise_all [] = Resolved []"
| "promise_all (Rejected # ps) = Rejected"
| "promise_all (Resolved v # ps) =
     (case promise_all ps of Rejected \<Rightarrow> Rejected | Resolved vs \<Rightarrow> Resolved (v # vs))"

section \<open>Component state and effects\<close>

datatype toast = ToastSuccess string nat | ToastInfo string | ToastError string

text \<open>Calls that the component issues to its collaborators, in the order issued.\<close>

datatype call =
    GetProductById string
  | GetUserProductRating string string string
  | UpdateProductRating string int string string
  | InvalidateQueries "item_ref list"
  | RefreshSingleOrder string
  | LoadMoreOrders string

record rating_loading =
  orderID :: string
  loading_productId :: string

text \<open>
  The hooks of \<^verbatim>\<open>Orders\<close>: \<^verbatim>\<open>useAuth\<close> (the uid of the user, if any) and the four
  \<^verbatim>\<open>useState\<close> cells, with the toasts shown and the calls issued so far.
\<close>

record view_state =
  user :: "string option"
  selectedOrderId :: "string option"
  isTrackingOpen :: bool
  productRatingLoading :: rating_loading
  userRatings :: "string \<rightharpoonup> int"
  toasts :: "toast list"
  calls :: "call list"

definition no_rating_loading :: rating_loading where
  "no_rating_loading = \<lparr>orderID = [], loading_productId = []\<rparr>"

definition initial_state :: "string option \<Rightarrow> view_state" where
  "initial_state u =
     \<lparr>user = u, selectedOrderId = None, isTrackingOpen = False,
      productRatingLoading = no_rating_loading, userRatings = Map.empty,
      toasts = [], calls = []\<rparr>"

text \<open>The template literal \<^verbatim>\<open>`${productId}_${orderNumber}`\<close>.\<close>

definition ratingKey :: "string \<Rightarrow> string \<Rightarrow> string" where
  "ratingKey pid ono = pid @ ''_'' @ ono"

definition ref_key :: "item_ref \<Rightarrow> string" where
  "ref_key r = ratingKey (ref_productId r) (ref_orderNumber r)"

section \<open>Reference list and batch loaders\<close>

text \<open>\<^verbatim>\<open>orders.flatMap(order => order.items.map(item => ({ productId, orderNumber })))\<close>\<close>

definition allOrderItems :: "order list \<Rightarrow> item_ref list" where
  "allOrderItems os =
     concat (map (\<lambda>ord. map (\<lambda>item.
        \<lparr>ref_productId = productId item, ref_orderNumber = orderNumber ord\<rparr>) (items ord)) os)"

text \<open>
  The arguments of the \<^verbatim>\<open>getProductById\<close> calls that \<^verbatim>\<open>queryFn\<close> issues, in order:
  \<^verbatim>\<open>allOrderItems.map(({ productId }) => getProductById(productId))\<close>.
\<close>

definition productPromises :: "item_ref list \<Rightarrow> string list" where
  "productPromises refs = map ref_productId refs"

text \<open>\<^verbatim>\<open>products.filter(product => product !== null)\<close>\<close>

fun filter_non_null :: "'a option list \<Rightarrow> 'a list" where
  "filter_non_null [] = []"
| "filter_non_null (None # xs) = filter_non_null xs"
| "filter_non_null (Some x # xs) = x # filter_non_null xs"

text \<open>
  \<^verbatim>\<open>queryFn\<close>; the parameter \<open>getProductById\<close> is the settlement of the backend lookup
  for each product id.
\<close>

definition queryFn :: "(string \<Rightarrow> product option outcome) \<Rightarrow> item_ref list \<Rightarrow> product list outcome" where
  "queryFn getProductById refs =
     (if length refs = 0 then Resolved []
      else case promise_all (map getProductById (productPromises refs)) of
             Rejected \<Rightarrow> Rejected
           | Resolved ps \<Rightarrow> Resolved (filter_non_null ps))"

text \<open>
  \<^verbatim>\<open>const { data: products = [] } = useQuery({ queryFn, enabled: allOrderItems.length > 0 })\<close>:
  the query runs only when enabled. Its data is the result of \<^verbatim>\<open>queryFn\<close> when that
  resolves; when it rejects the data stays what the last successful fetch of the same query
  key left, the parameter \<open>previous\<close> (\<open>None\<close> when there was none). \<open>products\<close> is
  the empty list while the query has no data.
\<close>

definition products_of_query ::
  "product list option \<Rightarrow> (string \<Rightarrow> product option outcome) \<Rightarrow> item_ref list \<Rightarrow> product list" where
  "products_of_query previous getProductById refs =
     (if length refs > 0 then
        (case queryFn getProductById refs of
           Rejected \<Rightarrow> (case previous of None \<Rightarrow> [] | Some ps \<Rightarrow> ps)
         | Resolved ps \<Rightarrow> ps)
      else [])"

text \<open>\<^verbatim>\<open>new Map(products.map(product => [product.id, product]))\<close>: a later entry wins.\<close>

definition productMap :: "product list \<Rightarrow> (string \<rightharpoonup> product)" where
  "productMap ps = foldl (\<lambda>m p. m(product_id p \<mapsto> p)) Map.empty ps"

text \<open>
  The \<^verbatim>\<open>forEach\<close> of \<^verbatim>\<open>loadUserRatings\<close> that fills \<^verbatim>\<open>ratingsMap\<close>: an entry whose
  rating is \<^verbatim>\<open>null\<close> is skipped.
\<close>

definition ratingsMap :: "(item_ref \<times> int option) list \<Rightarrow> (string \<rightharpoonup> int)" where
  "ratingsMap ratings =
     foldl (\<lambda>m (r, rating). case rating of None \<Rightarrow> m | Some v \<Rightarrow> m(ref_key r \<mapsto> v))
       Map.empty ratings"

text \<open>One element of \<^verbatim>\<open>ratingPromises\<close>: the lookup, then \<^verbatim>\<open>{ productId, orderNumber, rating }\<close>.\<close>

definition ratingPromise :: "(string \<Rightarrow> string \<Rightarrow> string \<Rightarrow> int option outcome) \<Rightarrow> string \<Rightarrow> item_ref \<Rightarrow> (item_ref \<times> int option) outcome" where
  "ratingPromise getUserProductRating uid r =
     (case getUserProductRating uid (ref_productId r) (ref_orderNumber r) of
        Rejected \<Rightarrow> Rejected
      | Resolved rating \<Rightarrow> Resolved (r, rating))"

text \<open>
  \<^verbatim>\<open>loadUserRatings\<close>; the parameter \<open>getUserProductRating\<close> is the settlement of the
  backend lookup for each (uid, productId, orderNumber). The \<^verbatim>\<open>catch\<close> branch only logs.
\<close>

definition loadUserRatings :: "(string \<Rightarrow> string \<Rightarrow> string \<Rightarrow> int option outcome) \<Rightarrow> item_ref list \<Rightarrow> view_state \<Rightarrow> view_state" where
  "loadUserRatings getUserProductRating refs s =
     (case truthy_uid (user s) of
        None \<Rightarrow> s
      | Some uid \<Rightarrow>
          if length refs = 0 then s
          else case promise_all (map (ratingPromise getUserProductRating uid) refs) of
                 Rejected \<Rightarrow> s
               | Resolved ratings \<Rightarrow> s\<lparr>userRatings := ratingsMap ratings\<rparr>)"

section \<open>Rating submission (handleProductRating)\<close>

record click_event =
  propagationStopped :: bool
  defaultPrevented :: bool

definition fresh_event :: click_event where
  "fresh_event = \<lparr>propagationStopped = False, defaultPrevented = False\<rparr>"

definition dquote :: string where
  "dquote = [CHR 0x22]"

definition already_rated_message :: "string \<Rightarrow> int \<Rightarrow> string" where
  "already_rated_message pname v =
     ''You already rated '' @ dquote @ pname @ dquote @ '' with '' @ string_of_int v @ '' stars''"

definition thanks_message :: "string \<Rightarrow> int \<Rightarrow> string" where
  "thanks_message pname rating =
     ''Thanks for rating '' @ dquote @ pname @ dquote @ '' with '' @ string_of_int rating
       @ '' star'' @ (if rating \<noteq> 1 then ''s'' else []) @ ''!''"

definition failed_message :: "string \<Rightarrow> string" where
  "failed_message pname = ''Failed to rate '' @ dquote @ pname @ dquote @ ''. Please try again.''"

text \<open>
  \<^verbatim>\<open>handleProductRating\<close> suspends at \<^verbatim>\<open>await updateProductRating(...)\<close>. Its first part
  either returns early or leaves the handler awaiting the remote write.
\<close>

datatype rating_step = Returned view_state | Awaiting view_state

text \<open>
  The state in which the handler awaits the remote write: the slot holds the pair, the
  rating map holds the chosen value, the write is issued.
\<close>

definition awaiting_write :: "view_state \<Rightarrow> string \<Rightarrow> string \<Rightarrow> int \<Rightarrow> string \<Rightarrow> view_state" where
  "awaiting_write s uid pid rating ono =
     s\<lparr>productRatingLoading := \<lparr>orderID = ono, loading_productId = pid\<rparr>,
       userRatings := (userRatings s)(ratingKey pid ono \<mapsto> rating),
       calls := calls s @ [UpdateProductRating pid rating uid ono]\<rparr>"

definition handleProductRating_start ::
  "view_state \<Rightarrow> string \<Rightarrow> int \<Rightarrow> click_event \<Rightarrow> string \<Rightarrow> string \<Rightarrow> rating_step \<times> click_event" where
  "handleProductRating_start s pid rating ev pname ono =
     (let ev' = ev\<lparr>propagationStopped := True, defaultPrevented := True\<rparr> in
      case truthy_uid (user s) of
        None \<Rightarrow> (Returned (s\<lparr>toasts := toasts s @ [ToastError ''Please login to rate products'']\<rparr>), ev')
      | Some uid \<Rightarrow>
          (case userRatings s (ratingKey pid ono) of
             Some v \<Rightarrow>
               if v \<noteq> 0 then
                 (Returned (s\<lparr>toasts := toasts s @ [ToastInfo (already_rated_message pname v)]\<rparr>), ev')
               else (Awaiting (awaiting_write s uid pid rating ono), ev')
           | None \<Rightarrow> (Awaiting (awaiting_write s uid pid rating ono), ev')))"

text \<open>
  The rest of \<^verbatim>\<open>handleProductRating\<close>, run when the promise of \<^verbatim>\<open>updateProductRating\<close>
  settles: the success toast and the query invalidation when it resolved, the \<^verbatim>\<open>catch\<close>
  branch when it rejected, and the \<^verbatim>\<open>finally\<close> branch in both cases. The first argument
  is \<^verbatim>\<open>allOrderItems\<close>, part of the invalidated query key.
\<close>

definition handleProductRating_settle ::
  "item_ref list \<Rightarrow> view_state \<Rightarrow> string \<Rightarrow> int \<Rightarrow> string \<Rightarrow> string \<Rightarrow> unit outcome \<Rightarrow> view_state" where
  "handleProductRating_settle refs s pid rating pname ono written =
     (case written of
        Resolved _ \<Rightarrow>
          s\<lparr>toasts := toasts s @ [ToastSuccess (thanks_message pname rating) 3000],
            calls := calls s @ [InvalidateQueries refs],
            productRatingLoading := no_rating_loading\<rparr>
      | Rejected \<Rightarrow>
          s\<lparr>userRatings := (userRatings s)(ratingKey pid ono := None),
            toasts := toasts s @ [ToastError (failed_message pname)],
            productRatingLoading := no_rating_loading\<rparr>)"

text \<open>
  The whole handler. While it awaits the remote write other callbacks of the component can
  run, for instance a rating batch that resolves and replaces the rating map; \<open>during\<close>
  is their effect on the state, the identity when none runs.
\<close>

definition handleProductRating ::
  "item_ref list \<Rightarrow> (view_state \<Rightarrow> view_state) \<Rightarrow> view_state \<Rightarrow> string \<Rightarrow> int \<Rightarrow> click_event
     \<Rightarrow> string \<Rightarrow> string \<Rightarrow> unit outcome \<Rightarrow> view_state \<times> click_event" where
  "handleProductRating refs during s pid rating ev pname ono written =
     (case handleProductRating_start s pid rating ev pname ono of
        (Returned s', ev') \<Rightarrow> (s', ev')
      | (Awaiting s', ev') \<Rightarrow>
          (handleProductRating_settle refs (during s') pid rating pname ono written, ev'))"

section \<open>Rating section of a line item\<close>

record star_rating_props =
  sr_rating :: int
  sr_readonly :: bool
  sr_disabled :: bool
  sr_onRatingChange :: bool

record rating_section =
  section_stars :: star_rating_props
  section_saving :: bool
  section_rated :: "int option"

text \<open>\<^verbatim>\<open>userRating || 0\<close>\<close>

definition num_or_zero :: "int option \<Rightarrow> int" where
  "num_or_zero v = (case v of None \<Rightarrow> 0 | Some n \<Rightarrow> n)"

text \<open>
  \<^verbatim>\<open>productRatingLoading.productId === item.productId &&
  order.orderNumber === productRatingLoading.orderID\<close>
\<close>

definition is_rating_loading :: "view_state \<Rightarrow> order \<Rightarrow> order_item \<Rightarrow> bool" where
  "is_rating_loading s ord item =
     (loading_productId (productRatingLoading s) = productId item
      \<and> orderNumber ord = orderID (productRatingLoading s))"

text \<open>
  The block \<^verbatim>\<open>{product && order.status === "delivered" && (...)}\<close> inside the markup of
  a line item: \<open>None\<close> when the block renders nothing. \<open>sr_onRatingChange\<close> tells whether a handler is
  passed; \<open>section_rated\<close> is the value of the "You rated" line, if that line is shown.
\<close>

definition rating_block ::
  "(string \<rightharpoonup> product) \<Rightarrow> view_state \<Rightarrow> order \<Rightarrow> order_item \<Rightarrow> rating_section option" where
  "rating_block pm s ord item =
     (let product = pm (productId item);
          userRating = userRatings s (ratingKey (productId item) (orderNumber ord))
      in if product \<noteq> None \<and> status ord = ''delivered'' then
           Some \<lparr>section_stars =
                   \<lparr>sr_rating = num_or_zero userRating,
                    sr_readonly = truthy_num userRating,
                    sr_disabled = is_rating_loading s ord item,
                    sr_onRatingChange = (\<not> truthy_num userRating)\<rparr>,
                 section_saving = is_rating_loading s ord item,
                 section_rated = (if truthy_num userRating then userRating else None)\<rparr>
         else None)"

text \<open>
  Modelled from the spec: the component \<^verbatim>\<open>StarRating\<close> (\<^verbatim>\<open>@/components/ui/star-rating\<close>)
  is not among the sources. A rating control is interactive when it is rendered, is not
  read-only, is not disabled and has a change handler.
\<close>

definition rating_control_interactive :: "rating_section option \<Rightarrow> bool" where
  "rating_control_interactive sec =
     (case sec of
        None \<Rightarrow> False
      | Some r \<Rightarrow> \<not> sr_readonly (section_stars r) \<and> \<not> sr_disabled (section_stars r)
                  \<and> sr_onRatingChange (section_stars r))"

section \<open>Clicks on an order card\<close>

definition handleOrderClick :: "string \<Rightarrow> view_state \<Rightarrow> view_state" where
  "handleOrderClick orderId s = s\<lparr>selectedOrderId := Some orderId, isTrackingOpen := True\<rparr>"

definition handleTrackOrderClick :: "click_event \<Rightarrow> string \<Rightarrow> view_state \<Rightarrow> view_state \<times> click_event" where
  "handleTrackOrderClick e orderId s = (handleOrderClick orderId s, e\<lparr>propagationStopped := True\<rparr>)"

definition handleSingleOrderRefresh :: "string \<Rightarrow> view_state \<Rightarrow> view_state" where
  "handleSingleOrderRefresh orderId s = s\<lparr>calls := calls s @ [RefreshSingleOrder orderId]\<rparr>"

text \<open>
  The \<^verbatim>\<open>onClick\<close> handlers in the markup of one order card: the refresh button, the
  wrapper of the rating section and the track-order row. The \<^verbatim>\<open>Card\<close> element, its
  \<^verbatim>\<open>CardContent\<close> and the other elements have none.
\<close>

datatype click_handler =
    RefreshButton_onClick string
  | RatingWrapper_onClick
  | TrackOrderRow_onClick string

fun run_handler :: "click_handler \<Rightarrow> view_state \<times> click_event \<Rightarrow> view_state \<times> click_event" where
  "run_handler (RefreshButton_onClick orderId) (s, e) =
     (handleSingleOrderRefresh orderId s, e\<lparr>propagationStopped := True\<rparr>)"
| "run_handler RatingWrapper_onClick (s, e) = (s, e\<lparr>propagationStopped := True\<rparr>)"
| "run_handler (TrackOrderRow_onClick orderId) (s, e) = handleTrackOrderClick e orderId s"

text \<open>Where on the card a click lands.\<close>

datatype click_target = CardSurface | RefreshButton | RatingWrapper | TrackOrderRow

text \<open>The handlers on the path from the clicked element up to the \<^verbatim>\<open>Card\<close>, innermost first.\<close>

definition handlers_on_path :: "order \<Rightarrow> click_target \<Rightarrow> click_handler list" where
  "handlers_on_path ord t =
     (case t of
        CardSurface \<Rightarrow> []
      | RefreshButton \<Rightarrow> [RefreshButton_onClick (order_id ord)]
      | RatingWrapper \<Rightarrow> [RatingWrapper_onClick]
      | TrackOrderRow \<Rightarrow> [TrackOrderRow_onClick (order_id ord)])"

text \<open>A click event bubbles through the handlers until one stops its propagation.\<close>

fun bubble :: "click_handler list \<Rightarrow> view_state \<times> click_event \<Rightarrow> view_state \<times> click_event" where
  "bubble [] se = se"
| "bubble (h # hs) se =
     (let se' = run_handler h se in if propagationStopped (snd se') then se' else bubble hs se')"

definition click_card :: "order \<Rightarrow> click_target \<Rightarrow> view_state \<Rightarrow> view_state \<times> click_event" where
  "click_card ord t s = bubble (handlers_on_path ord t) (s, fresh_event)"

section \<open>Infinite scroll\<close>

text \<open>The fields read from \<^verbatim>\<open>useOrderStore\<close>.\<close>

record order_store =
  orders :: "order list"
  loading :: bool
  loadingMore :: bool
  refreshing :: bool
  hasMore :: bool
  totalOrders :: nat
  error :: "string option"

datatype js_error = TypeError

text \<open>
  The callback of the \<^verbatim>\<open>IntersectionObserver\<close>; an entry is represented by its
  \<^verbatim>\<open>isIntersecting\<close> flag. Reading \<^verbatim>\<open>entries[0].isIntersecting\<close> of an empty array
  throws. The result lists the store calls made.
\<close>

definition observer_callback :: "string option \<Rightarrow> order_store \<Rightarrow> bool list \<Rightarrow> js_error + call list" where
  "observer_callback u st entries =
     (case entries of
        [] \<Rightarrow> Inl TypeError
      | target # _ \<Rightarrow>
          (if target \<and> hasMore st \<and> \<not> loadingMore st \<and> \<not> loading st then
             (case truthy_uid u of None \<Rightarrow> Inr [] | Some uid \<Rightarrow> Inr [LoadMoreOrders uid])
           else Inr []))"

text \<open>
  Modelled from the spec: the store \<^verbatim>\<open>useOrderStore\<close> is not among the sources. Its
  \<^verbatim>\<open>loadMoreOrders\<close> raises the load-more flag while the page is fetched; when the page
  arrives the orders are appended, the flag is lowered and \<^verbatim>\<open>hasMore\<close> is updated.
\<close>

definition loadMoreOrders_begin :: "order_store \<Rightarrow> order_store" where
  "loadMoreOrders_begin st = st\<lparr>loadingMore := True\<rparr>"

definition loadMoreOrders_done :: "order list \<Rightarrow> bool \<Rightarrow> order_store \<Rightarrow> order_store" where
  "loadMoreOrders_done page remaining st =
     st\<lparr>orders := orders st @ page, loadingMore := False, hasMore := remaining\<rparr>"

record pager =
  store :: order_store
  sentinel_visible :: bool
  store_calls :: "call list"

text \<open>One delivery of the observer callback with the sentinel's current visibility.\<close>

definition deliver_entry :: "string option \<Rightarrow> pager \<Rightarrow> pager" where
  "deliver_entry u p =
     (case observer_callback u (store p) [sentinel_visible p] of
        Inl _ \<Rightarrow> p
      | Inr cs \<Rightarrow>
          p\<lparr>store := (if cs = [] then store p else loadMoreOrders_begin (store p)),
            store_calls := store_calls p @ cs\<rparr>)"

text \<open>
  The events of the scroll loop. \<open>SentinelVisibility b\<close>: the sentinel enters or leaves
  the viewport and the observer reports it. \<open>PageArrived page remaining\<close>: a requested page
  arrives; \<^verbatim>\<open>hasMore\<close> and \<^verbatim>\<open>loadingMore\<close> are dependencies of the effect, so the
  effect runs again, and when the sentinel is rendered (\<^verbatim>\<open>hasMore\<close>) the new observer
  observes it and reports its current visibility once.
\<close>

datatype scroll_event = SentinelVisibility bool | PageArrived "order list" bool

fun scroll_step :: "string option \<Rightarrow> pager \<Rightarrow> scroll_event \<Rightarrow> pager" where
  "scroll_step u p (SentinelVisibility b) = deliver_entry u (p\<lparr>sentinel_visible := b\<rparr>)"
| "scroll_step u p (PageArrived page remaining) =
     (let p' = p\<lparr>store := loadMoreOrders_done page remaining (store p)\<rparr>
      in if hasMore (store p') then deliver_entry u p' else p')"

definition scroll_run :: "string option \<Rightarrow> pager \<Rightarrow> scroll_event list \<Rightarrow> pager" where
  "scroll_run u p evs = foldl (scroll_step u) p evs"

text \<open>The number of \<^verbatim>\<open>loadMoreOrders\<close> calls in a call log.\<close>

fun is_LoadMoreOrders :: "call \<Rightarrow> bool" where
  "is_LoadMoreOrders (LoadMoreOrders _) = True"
| "is_LoadMoreOrders _ = False"

definition loadMore_count :: "call list \<Rightarrow> nat" where
  "loadMore_count cs = length (filter is_LoadMoreOrders cs)"

text \<open>
  The number of transitions of the sentinel from not visible to visible along a list of
  events, the first argument being its visibility before the first event.
\<close>

fun became_visible_count :: "bool \<Rightarrow> scroll_event list \<Rightarrow> nat" where
  "became_visible_count v [] = 0"
| "became_visible_count v (SentinelVisibility b # evs) =
     (if \<not> v \<and> b then 1 else 0) + became_visible_count b evs"
| "became_visible_count v (PageArrived page remaining # evs) = became_visible_count v evs"

fun is_PageArrived :: "scroll_event \<Rightarrow> bool" where
  "is_PageArrived (PageArrived _ _) = True"
| "is_PageArrived _ = False"

definition pages_arrived :: "scroll_event list \<Rightarrow> nat" where
  "pages_arrived evs = length (filter is_PageArrived evs)"

section \<open>Content of the page\<close>

text \<open>
  The content area: \<^verbatim>\<open>error && !loading\<close> shows the error view, else
  \<^verbatim>\<open>loading && orders.length === 0\<close> the skeletons, else \<^verbatim>\<open>orders.length === 0\<close> the
  empty state, else the list of order cards.
\<close>

datatype content = ErrorView | Skeletons | EmptyView | OrderList

definition truthy_str :: "string option \<Rightarrow> bool" where
  "truthy_str v = (case v of None \<Rightarrow> False | Some e \<Rightarrow> e \<noteq> [])"

definition content_view :: "order_store \<Rightarrow> content" where
  "content_view st =
     (if truthy_str (error st) \<and> \<not> loading st then ErrorView
      else if loading st \<and> length (orders st) = 0 then Skeletons
      else if length (orders st) = 0 then EmptyView
      else OrderList)"

text \<open>
  The rating section of a line item as the page renders it: the list of order cards must be
  the content shown, the card is one of \<^verbatim>\<open>orders.map(...)\<close>, the item one of
  \<^verbatim>\<open>order.items.map(...)\<close>, and then the block of the item decides.
\<close>

definition render_rating_section ::
  "order_store \<Rightarrow> (string \<rightharpoonup> product) \<Rightarrow> view_state \<Rightarrow> order \<Rightarrow> order_item
     \<Rightarrow> rating_section option" where
  "render_rating_section st pm s ord item =
     (if content_view st = OrderList \<and> ord \<in> set (orders st) \<and> item \<in> set (items ord)
      then rating_block pm s ord item else None)"

text \<open>The line items on the page whose saving indicator is rendered, in page order.\<close>

definition saving_indicators ::
  "order_store \<Rightarrow> (string \<rightharpoonup> product) \<Rightarrow> view_state \<Rightarrow> (order \<times> order_item) list" where
  "saving_indicators st pm s =
     (if content_view st = OrderList then
        concat (map (\<lambda>ord. concat (map (\<lambda>item.
          (case rating_block pm s ord item of
             None \<Rightarrow> []
           | Some sec \<Rightarrow> if section_saving sec then [(ord, item)] else [])) (items ord)))
          (orders st))
      else [])"

section \<open>Example inputs\<close>

text \<open>Two orders; the first has the same product on two lines.\<close>

definition ex_orders :: "order list" where
  "ex_orders =
     [\<lparr>order_id = ''id-a'', orderNumber = ''A1'', status = ''delivered'',
       items = [\<lparr>productId = ''P1'', productName = ''Milk''\<rparr>,
                \<lparr>productId = ''P1'', productName = ''Milk''\<rparr>]\<rparr>,
      \<lparr>order_id = ''id-b'', orderNumber = ''B2'', status = ''placed'',
       items = [\<lparr>productId = ''P1'', productName = ''Milk''\<rparr>]\<rparr>]"

definition milk :: product where
  "milk = \<lparr>product_id = ''P1'', averageRating = 4\<rparr>"

definition bread :: product where
  "bread = \<lparr>product_id = ''P2'', averageRating = 3\<rparr>"

definition ex_refs :: "item_ref list" where
  "ex_refs = [\<lparr>ref_productId = ''P1'', ref_orderNumber = ''A1''\<rparr>,
              \<lparr>ref_productId = ''P2'', ref_orderNumber = ''A1''\<rparr>]"

text \<open>Backends: P1 is found and rated; any other lookup rejects, or finds nothing.\<close>

definition getProductById_rejecting :: "string \<Rightarrow> product option outcome" where
  "getProductById_rejecting pid = (if pid = ''P1'' then Resolved (Some milk) else Rejected)"

definition getProductById_missing :: "string \<Rightarrow> product option outcome" where
  "getProductById_missing pid = (if pid = ''P1'' then Resolved (Some milk) else Resolved None)"

definition getUserProductRating_rejecting :: "string \<Rightarrow> string \<Rightarrow> string \<Rightarrow> int option outcome" where
  "getUserProductRating_rejecting uid pid ono = (if pid = ''P1'' then Resolved (Some 5) else Rejected)"

definition getUserProductRating_missing :: "string \<Rightarrow> string \<Rightarrow> string \<Rightarrow> int option outcome" where
  "getUserProductRating_missing uid pid ono = (if pid = ''P1'' then Resolved (Some 5) else Resolved None)"

definition milk_item :: order_item where
  "milk_item = \<lparr>productId = ''P1'', productName = ''Milk''\<rparr>"

definition delivered_order :: order where
  "delivered_order =
     \<lparr>order_id = ''id-a'', orderNumber = ''A1'', status = ''delivered'', items = [milk_item]\<rparr>"

definition placed_order :: order where
  "placed_order =
     \<lparr>order_id = ''id-b'', orderNumber = ''B2'', status = ''placed'',
      items = [\<lparr>productId = ''P2'', productName = ''Bread''\<rparr>]\<rparr>"

definition rated_state :: view_state where
  "rated_state = (initial_state (Some ''u1''))\<lparr>userRatings := [ratingKey ''P1'' ''A1'' \<mapsto> 4]\<rparr>"


definition milk_ref :: item_ref where
  "milk_ref = \<lparr>ref_productId = ''P1'', ref_orderNumber = ''A1''\<rparr>"

definition bread_ref :: item_ref where
  "bread_ref = \<lparr>ref_productId = ''P2'', ref_orderNumber = ''B2''\<rparr>"

text \<open>
  The state while the rating 4 of Milk in order A1 awaits the remote write; Bread of order
  B2 was rated 3 before.
\<close>

definition submitting_state :: view_state where
  "submitting_state =
     (initial_state (Some ''u1''))
       \<lparr>productRatingLoading := \<lparr>orderID = ''A1'', loading_productId = ''P1''\<rparr>,
        userRatings := [ratingKey ''P2'' ''B2'' \<mapsto> 3, ratingKey ''P1'' ''A1'' \<mapsto> 4],
        calls := [UpdateProductRating ''P1'' 4 ''u1'' ''A1'']\<rparr>"

definition milk_products :: "string \<rightharpoonup> product" where
  "milk_products = productMap [\<lparr>product_id = ''P1'', averageRating = 4\<rparr>]"

definition getUserProductRating_stored :: "string \<Rightarrow> string \<Rightarrow> string \<Rightarrow> int option outcome" where
  "getUserProductRating_stored uid pid ono =
     (if pid = ''P1'' \<and> ono = ''A1'' then Resolved (Some 4) else Resolved None)"

definition getUserProductRating_none :: "string \<Rightarrow> string \<Rightarrow> string \<Rightarrow> int option outcome" where
  "getUserProductRating_none uid pid ono = Resolved None"

text \<open>The rating 4 of Milk in order A1, submitted with success and nothing else running.\<close>

definition settled_state :: view_state where
  "settled_state =
     fst (handleProductRating [milk_ref] id (initial_state (Some ''u1'')) ''P1'' 4 fresh_event
            ''Milk'' ''A1'' (Resolved ()))"

text \<open>Stores: the delivered order is loaded; the same with a failed list fetch on record.\<close>

definition list_store :: order_store where
  "list_store =
     \<lparr>orders = [delivered_order], loading = False, loadingMore = False, refreshing = False,
      hasMore = False, totalOrders = 1, error = None\<rparr>"

definition error_store :: order_store where
  "error_store = list_store\<lparr>error := Some ''Network error''\<rparr>"

text \<open>A delivered order with the same product on two lines.\<close>

definition milk_gift_item :: order_item where
  "milk_gift_item = \<lparr>productId = ''P1'', productName = ''Milk (gift)''\<rparr>"

definition double_line_order :: order where
  "double_line_order =
     \<lparr>order_id = ''id-a'', orderNumber = ''A1'', status = ''delivered'',
      items = [milk_item, milk_gift_item]\<rparr>"

definition double_line_store :: order_store where
  "double_line_store = list_store\<lparr>orders := [double_line_order]\<rparr>"

text \<open>
  One order is loaded, more pages remain, nothing is in flight, the sentinel is below the
  viewport.
\<close>

definition first_page_pager :: pager where
  "first_page_pager =
     \<lparr>store = \<lparr>orders = [delivered_order], loading = False, loadingMore = False, refreshing = False,
               hasMore = True, totalOrders = 12, error = None\<rparr>,
      sentinel_visible = False, store_calls = []\<rparr>"

definition short_page_events :: "scroll_event list" where
  "short_page_events = [SentinelVisibility True, PageArrived [placed_order] True]"

definition last_page_store :: order_store where
  "last_page_store = (store first_page_pager)\<lparr>hasMore := False\<rparr>"

definition in_flight_pager :: pager where
  "in_flight_pager =
     first_page_pager\<lparr>store := loadMoreOrders_begin (store first_page_pager),
                      sentinel_visible := True,
                      store_calls := [LoadMoreOrders ''u1'']\<rparr>"

text \<open>
  The calls issued so far, plus one when no page load is in flight: the quantity that a
  step of the scroll loop cannot raise unless a page arrives.
\<close>

definition load_credit :: "pager \<Rightarrow> nat" where
  "load_credit p = loadMore_count (store_calls p) + (if loadingMore (store p) then 0 else 1)"

section \<open>Auxiliary facts\<close>

lemma productPromises_allOrderItems:
  "productPromises (allOrderItems os) = concat (map (\<lambda>ord. map productId (items ord)) os)"
  by (induction os) (simp_all add: allOrderItems_def productPromises_def comp_def)

lemma length_allOrderItems:
  "length (allOrderItems os) = sum_list (map (\<lambda>ord. length (items ord)) os)"
  by (induction os) (simp_all add: allOrderItems_def)

lemma set_productPromises:
  "set (productPromises (allOrderItems os)) = (\<Union>ord\<in>set os. productId ` set (items ord))"
  by (simp add: productPromises_allOrderItems)

lemma allOrderItems_pairs:
  "map (\<lambda>r. (ref_productId r, ref_orderNumber r)) (allOrderItems os)
     = concat (map (\<lambda>ord. map (\<lambda>item. (productId item, orderNumber ord)) (items ord)) os)"
  by (induction os) (simp_all add: allOrderItems_def comp_def)

lemma inj_ref_pair: "inj (\<lambda>r::item_ref. (ref_productId r, ref_orderNumber r))"
  by (rule injI) simp

lemma distinct_allOrderItems:
  "distinct (allOrderItems os)
     \<longleftrightarrow> distinct (concat (map (\<lambda>ord. map (\<lambda>item. (productId item, orderNumber ord)) (items ord)) os))"
proof -
  have "distinct (map (\<lambda>r. (ref_productId r, ref_orderNumber r)) (allOrderItems os))
          = distinct (allOrderItems os)"
    by (simp add: distinct_map inj_on_def)
  then show ?thesis
    by (simp only: allOrderItems_pairs)
qed

lemma promise_all_Rejected_iff: "promise_all ps = Rejected \<longleftrightarrow> Rejected \<in> set ps"
  by (induction ps rule: promise_all.induct) (auto split: outcome.splits)

lemma promise_all_Resolved: "promise_all ps = Resolved vs \<Longrightarrow> ps = map Resolved vs"
  by (induction ps arbitrary: vs rule: promise_all.induct) (auto split: outcome.splits)

lemma promise_all_map_Resolved: "promise_all (map Resolved vs) = Resolved vs"
  by (induction vs) auto

lemma set_filter_non_null: "set (filter_non_null xs) = {x. Some x \<in> set xs}"
  by (induction xs rule: filter_non_null.induct) auto

lemma in_set_map_iff: "y \<in> set (map f xs) \<longleftrightarrow> (\<exists>x\<in>set xs. f x = y)"
  by auto

lemma queryFn_Rejected_iff:
  "queryFn getP refs = Rejected \<longleftrightarrow> (\<exists>r\<in>set refs. getP (ref_productId r) = Rejected)"
proof -
  have "queryFn getP refs = Rejected
          \<longleftrightarrow> refs \<noteq> [] \<and> promise_all (map getP (productPromises refs)) = Rejected"
    by (simp add: queryFn_def split: outcome.splits)
  also have "\<dots> \<longleftrightarrow> Rejected \<in> set (map (\<lambda>r. getP (ref_productId r)) refs)"
    by (cases refs) (simp_all add: promise_all_Rejected_iff productPromises_def comp_def)
  finally show ?thesis
    by (simp only: in_set_map_iff)
qed

lemma queryFn_Resolved:
  assumes "queryFn getP refs = Resolved ps"
  shows "set ps = {p. \<exists>r\<in>set refs. getP (ref_productId r) = Resolved (Some p)}"
proof (cases "refs = []")
  case True
  with assms show ?thesis by (simp add: queryFn_def)
next
  case False
  with assms obtain vs where vs: "promise_all (map getP (productPromises refs)) = Resolved vs"
    and ps: "ps = filter_non_null vs"
    by (auto simp: queryFn_def split: outcome.splits)
  from vs have eq: "map getP (productPromises refs) = map Resolved vs"
    by (rule promise_all_Resolved)
  have "Some p \<in> set vs \<longleftrightarrow> (\<exists>r\<in>set refs. getP (ref_productId r) = Resolved (Some p))" for p
  proof -
    have "Some p \<in> set vs \<longleftrightarrow> Resolved (Some p) \<in> set (map Resolved vs)"
      by auto
    also have "\<dots> \<longleftrightarrow> Resolved (Some p) \<in> set (map getP (productPromises refs))"
      by (simp only: eq)
    also have "\<dots> \<longleftrightarrow> (\<exists>r\<in>set refs. getP (ref_productId r) = Resolved (Some p))"
      by (simp only: productPromises_def map_map comp_def in_set_map_iff)
    finally show ?thesis .
  qed
  then show ?thesis
    by (simp add: ps set_filter_non_null)
qed

lemma ratingsMap_fold_Some:
  "foldl (\<lambda>m (r, rating). case rating of None \<Rightarrow> m | Some v \<Rightarrow> m(ref_key r \<mapsto> v)) m rs k = Some v
   \<Longrightarrow> m k = Some v \<or> (\<exists>r. (r, Some v) \<in> set rs \<and> ref_key r = k)"
proof (induction rs arbitrary: m)
  case Nil
  then show ?case by simp
next
  case (Cons x rs)
  obtain r rating where x: "x = (r, rating)" by (cases x)
  show ?case
    using Cons.IH[of "case rating of None \<Rightarrow> m | Some v \<Rightarrow> m(ref_key r \<mapsto> v)"] Cons.prems
    by (auto simp: x split: option.splits if_splits)
qed

lemma ratingsMap_fold_keeps:
  "m k \<noteq> None
   \<Longrightarrow> foldl (\<lambda>m (r, rating). case rating of None \<Rightarrow> m | Some v \<Rightarrow> m(ref_key r \<mapsto> v)) m rs k \<noteq> None"
proof (induction rs arbitrary: m)
  case Nil
  then show ?case by simp
next
  case (Cons x rs)
  obtain r rating where x: "x = (r, rating)" by (cases x)
  show ?case
    using Cons.IH[of "case rating of None \<Rightarrow> m | Some v \<Rightarrow> m(ref_key r \<mapsto> v)"] Cons.prems
    by (auto simp: x split: option.splits)
qed

lemma ratingsMap_fold_defined:
  "(r, Some v) \<in> set rs
   \<Longrightarrow> foldl (\<lambda>m (r, rating). case rating of None \<Rightarrow> m | Some v \<Rightarrow> m(ref_key r \<mapsto> v)) m rs (ref_key r) \<noteq> None"
proof (induction rs arbitrary: m)
  case Nil
  then show ?case by simp
next
  case (Cons x rs)
  obtain r' rating where x: "x = (r', rating)" by (cases x)
  show ?case
  proof (cases "x = (r, Some v)")
    case True
    then show ?thesis
      using ratingsMap_fold_keeps[of "m(ref_key r \<mapsto> v)" "ref_key r" rs]
      by simp
  next
    case False
    with Cons.prems have "(r, Some v) \<in> set rs" by auto
    then show ?thesis
      using Cons.IH[of "case rating of None \<Rightarrow> m | Some v \<Rightarrow> m(ref_key r' \<mapsto> v)"]
      by (simp add: x)
  qed
qed

lemma ratingsMap_Some:
  "ratingsMap rs k = Some v \<Longrightarrow> \<exists>r. (r, Some v) \<in> set rs \<and> ref_key r = k"
  using ratingsMap_fold_Some[of Map.empty rs k v] by (simp add: ratingsMap_def)

lemma ratingsMap_defined:
  "(r, Some v) \<in> set rs \<Longrightarrow> ratingsMap rs (ref_key r) \<noteq> None"
  using ratingsMap_fold_defined[of r v rs Map.empty] by (simp add: ratingsMap_def)

lemma ratingPromise_Rejected_iff:
  "ratingPromise getR uid r = Rejected
   \<longleftrightarrow> getR uid (ref_productId r) (ref_orderNumber r) = Rejected"
  by (simp add: ratingPromise_def split: outcome.splits)

lemma ratingPromise_Resolved_iff:
  "ratingPromise getR uid r = Resolved (r', rating)
   \<longleftrightarrow> r' = r \<and> getR uid (ref_productId r) (ref_orderNumber r) = Resolved rating"
  by (auto simp: ratingPromise_def split: outcome.splits)

lemma ratingPromises_Rejected_iff:
  "promise_all (map (ratingPromise getR uid) refs) = Rejected
   \<longleftrightarrow> (\<exists>r\<in>set refs. getR uid (ref_productId r) (ref_orderNumber r) = Rejected)"
  by (simp only: promise_all_Rejected_iff in_set_map_iff ratingPromise_Rejected_iff)

lemma ratingPromises_Resolved:
  assumes "promise_all (map (ratingPromise getR uid) refs) = Resolved rs"
  shows "(r, rating) \<in> set rs
         \<longleftrightarrow> r \<in> set refs \<and> getR uid (ref_productId r) (ref_orderNumber r) = Resolved rating"
proof -
  from assms have eq: "map (ratingPromise getR uid) refs = map Resolved rs"
    by (rule promise_all_Resolved)
  have "(r, rating) \<in> set rs \<longleftrightarrow> Resolved (r, rating) \<in> set (map Resolved rs)"
    by auto
  also have "\<dots> \<longleftrightarrow> Resolved (r, rating) \<in> set (map (ratingPromise getR uid) refs)"
    by (simp only: eq)
  also have "\<dots> \<longleftrightarrow> r \<in> set refs \<and> getR uid (ref_productId r) (ref_orderNumber r) = Resolved rating"
    by (auto simp only: in_set_map_iff ratingPromise_Resolved_iff)
  finally show ?thesis .
qed

lemma products_of_query_no_rejection:
  assumes "\<forall>r\<in>set refs. getP (ref_productId r) \<noteq> Rejected"
  shows "set (products_of_query previous getP refs)
           = {p. \<exists>r\<in>set refs. getP (ref_productId r) = Resolved (Some p)}"
proof (cases "queryFn getP refs")
  case Rejected
  with assms show ?thesis by (simp add: queryFn_Rejected_iff)
next
  case (Resolved ps)
  show ?thesis
  proof (cases "refs = []")
    case True
    then show ?thesis by (simp add: products_of_query_def)
  next
    case False
    then show ?thesis
      using queryFn_Resolved[OF Resolved] by (simp add: products_of_query_def Resolved)
  qed
qed

lemma products_of_query_rejection:
  assumes "\<exists>r\<in>set refs. getP (ref_productId r) = Rejected"
  shows "products_of_query previous getP refs = (case previous of None \<Rightarrow> [] | Some ps \<Rightarrow> ps)"
proof -
  from assms have "queryFn getP refs = Rejected"
    by (simp add: queryFn_Rejected_iff)
  moreover from assms have "refs \<noteq> []" by auto
  ultimately show ?thesis
    by (simp add: products_of_query_def)
qed

lemma loadUserRatings_rejection:
  assumes "\<exists>r\<in>set refs. getR uid (ref_productId r) (ref_orderNumber r) = Rejected"
    and "truthy_uid (user s) = Some uid"
  shows "loadUserRatings getR refs s = s"
  using assms ratingPromises_Rejected_iff[of getR uid refs]
  by (simp add: loadUserRatings_def)

lemma loadUserRatings_only_ratings:
  "loadUserRatings getR refs s = s\<lparr>userRatings := userRatings (loadUserRatings getR refs s)\<rparr>"
  by (simp add: loadUserRatings_def split: option.splits outcome.splits)

lemma loadUserRatings_resolved:
  assumes "truthy_uid (user s) = Some uid" and "refs \<noteq> []"
    and "\<forall>r\<in>set refs. getR uid (ref_productId r) (ref_orderNumber r) \<noteq> Rejected"
  obtains rs where "promise_all (map (ratingPromise getR uid) refs) = Resolved rs"
    and "userRatings (loadUserRatings getR refs s) = ratingsMap rs"
proof (cases "promise_all (map (ratingPromise getR uid) refs)")
  case Rejected
  with assms(3) show ?thesis by (simp add: ratingPromises_Rejected_iff)
next
  case (Resolved rs)
  with assms(1,2) have "userRatings (loadUserRatings getR refs s) = ratingsMap rs"
    by (simp add: loadUserRatings_def)
  with Resolved show ?thesis by (rule that)
qed

lemma loadUserRatings_Some:
  assumes "truthy_uid (user s) = Some uid" and "refs \<noteq> []"
    and "\<forall>r\<in>set refs. getR uid (ref_productId r) (ref_orderNumber r) \<noteq> Rejected"
    and "userRatings (loadUserRatings getR refs s) k = Some v"
  shows "\<exists>r\<in>set refs. ref_key r = k
           \<and> getR uid (ref_productId r) (ref_orderNumber r) = Resolved (Some v)"
proof -
  from assms(1-3) obtain rs where rs: "promise_all (map (ratingPromise getR uid) refs) = Resolved rs"
    and m: "userRatings (loadUserRatings getR refs s) = ratingsMap rs"
    by (rule loadUserRatings_resolved)
  from assms(4) m obtain r where "(r, Some v) \<in> set rs" "ref_key r = k"
    using ratingsMap_Some[of rs k v] by auto
  then show ?thesis
    using ratingPromises_Resolved[OF rs, of r "Some v"] by auto
qed

lemma loadUserRatings_defined:
  assumes "truthy_uid (user s) = Some uid"
    and "\<forall>r\<in>set refs. getR uid (ref_productId r) (ref_orderNumber r) \<noteq> Rejected"
    and "r \<in> set refs" and "getR uid (ref_productId r) (ref_orderNumber r) = Resolved (Some v)"
  shows "userRatings (loadUserRatings getR refs s) (ref_key r) \<noteq> None"
proof -
  from assms(3) have ne: "refs \<noteq> []" by auto
  from assms(1) ne assms(2) obtain rs where rs: "promise_all (map (ratingPromise getR uid) refs) = Resolved rs"
    and m: "userRatings (loadUserRatings getR refs s) = ratingsMap rs"
    by (rule loadUserRatings_resolved)
  from assms(3,4) have "(r, Some v) \<in> set rs"
    using ratingPromises_Resolved[OF rs, of r "Some v"] by simp
  then show ?thesis
    using ratingsMap_defined[of r v rs] by (simp add: m)
qed

lemma string_of_int_4: "string_of_int 4 = ''4''"
  by (simp add: string_of_int_def string_of_nat.simps digit_chars_def)

lemma is_rating_loading_iff:
  "is_rating_loading s ord item
   \<longleftrightarrow> productRatingLoading s
         = \<lparr>orderID = orderNumber ord, loading_productId = productId item\<rparr>"
  by (cases "productRatingLoading s") (auto simp: is_rating_loading_def)

lemma content_view_loaded:
  "ord \<in> set (orders st)
   \<Longrightarrow> content_view st = OrderList \<longleftrightarrow> \<not> (truthy_str (error st) \<and> \<not> loading st)"
  by (auto simp: content_view_def)

lemma rating_block_interactive_iff:
  "rating_control_interactive (rating_block pm s ord item)
   \<longleftrightarrow> pm (productId item) \<noteq> None
       \<and> status ord = ''delivered''
       \<and> \<not> truthy_num (userRatings s (ratingKey (productId item) (orderNumber ord)))
       \<and> productRatingLoading s
            \<noteq> \<lparr>orderID = orderNumber ord, loading_productId = productId item\<rparr>"
  by (auto simp: rating_control_interactive_def rating_block_def Let_def is_rating_loading_iff)

lemma render_rating_section_interactive_iff:
  "rating_control_interactive (render_rating_section st pm s ord item)
   \<longleftrightarrow> content_view st = OrderList \<and> ord \<in> set (orders st) \<and> item \<in> set (items ord)
       \<and> pm (productId item) \<noteq> None
       \<and> status ord = ''delivered''
       \<and> \<not> truthy_num (userRatings s (ratingKey (productId item) (orderNumber ord)))
       \<and> productRatingLoading s
            \<noteq> \<lparr>orderID = orderNumber ord, loading_productId = productId item\<rparr>"
proof (cases "content_view st = OrderList \<and> ord \<in> set (orders st) \<and> item \<in> set (items ord)")
  case True
  then show ?thesis
    by (simp add: render_rating_section_def rating_block_interactive_iff)
next
  case False
  then have "render_rating_section st pm s ord item = None"
    by (auto simp: render_rating_section_def)
  with False show ?thesis
    by (auto simp: rating_control_interactive_def)
qed

lemma saving_indicators_iff:
  "(ord, item) \<in> set (saving_indicators st pm s)
   \<longleftrightarrow> content_view st = OrderList \<and> ord \<in> set (orders st) \<and> item \<in> set (items ord)
       \<and> pm (productId item) \<noteq> None \<and> status ord = ''delivered''
       \<and> productRatingLoading s
            = \<lparr>orderID = orderNumber ord, loading_productId = productId item\<rparr>"
proof -
  have one: "(case rating_block pm s ord' item' of
                None \<Rightarrow> []
              | Some sec \<Rightarrow> if section_saving sec then [(ord', item')] else [])
             = (if pm (productId item') \<noteq> None \<and> status ord' = ''delivered''
                   \<and> is_rating_loading s ord' item' then [(ord', item')] else [])"
    for ord' item'
    by (simp add: rating_block_def Let_def)
  show ?thesis
    unfolding saving_indicators_def one is_rating_loading_iff by auto
qed

lemma handleProductRating_passes:
  assumes "truthy_uid (user s) = Some uid"
    and "\<not> truthy_num (userRatings s (ratingKey pid ono))"
  shows "handleProductRating refs during s pid rating ev pname ono written
           = (handleProductRating_settle refs (during (awaiting_write s uid pid rating ono))
                pid rating pname ono written,
              ev\<lparr>propagationStopped := True, defaultPrevented := True\<rparr>)"
  using assms
  by (simp add: handleProductRating_def handleProductRating_start_def truthy_num_def
      split: option.splits)

lemma handleProductRating_start_passes:
  assumes "truthy_uid (user s) = Some uid"
    and "\<not> truthy_num (userRatings s (ratingKey pid ono))"
  shows "fst (handleProductRating_start s pid rating ev pname ono)
           = Awaiting (awaiting_write s uid pid rating ono)"
  using assms
  by (simp add: handleProductRating_start_def truthy_num_def split: option.splits)

lemma loadUserRatings_same_value:
  assumes u: "truthy_uid (user s) = Some uid"
    and nr: "\<forall>r\<in>set refs. getR uid (ref_productId r) (ref_orderNumber r) \<noteq> Rejected"
    and ex: "\<exists>r\<in>set refs. ref_key r = k"
    and all: "\<forall>r\<in>set refs. ref_key r = k \<longrightarrow>
                getR uid (ref_productId r) (ref_orderNumber r) = Resolved (Some v)"
  shows "userRatings (loadUserRatings getR refs s) k = Some v"
proof -
  from ex obtain r where r: "r \<in> set refs" "ref_key r = k" by blast
  with all have "getR uid (ref_productId r) (ref_orderNumber r) = Resolved (Some v)" by blast
  with u nr r have "userRatings (loadUserRatings getR refs s) k \<noteq> None"
    using loadUserRatings_defined[of s uid refs getR r v] by simp
  then obtain v' where v': "userRatings (loadUserRatings getR refs s) k = Some v'" by blast
  from r have "refs \<noteq> []" by auto
  with u nr v' obtain r' where "r' \<in> set refs" "ref_key r' = k"
    "getR uid (ref_productId r') (ref_orderNumber r') = Resolved (Some v')"
    using loadUserRatings_Some[of s uid refs getR k v'] by blast
  with all have "v' = v" by auto
  with v' show ?thesis by simp
qed

lemma loadUserRatings_no_value:
  assumes u: "truthy_uid (user s) = Some uid" and ne: "refs \<noteq> []"
    and nr: "\<forall>r\<in>set refs. getR uid (ref_productId r) (ref_orderNumber r) \<noteq> Rejected"
    and all: "\<forall>r\<in>set refs. ref_key r = k \<longrightarrow>
                getR uid (ref_productId r) (ref_orderNumber r) = Resolved None"
  shows "userRatings (loadUserRatings getR refs s) k = None"
proof (rule ccontr)
  assume "userRatings (loadUserRatings getR refs s) k \<noteq> None"
  then obtain v where "userRatings (loadUserRatings getR refs s) k = Some v" by blast
  with u ne nr obtain r where "r \<in> set refs" "ref_key r = k"
    "getR uid (ref_productId r) (ref_orderNumber r) = Resolved (Some v)"
    using loadUserRatings_Some[of s uid refs getR k v] by blast
  with all show False by auto
qed

lemma observer_callback_call_iff:
  "observer_callback u st entries = Inr [LoadMoreOrders uid]
   \<longleftrightarrow> (\<exists>rest. entries = True # rest) \<and> hasMore st \<and> \<not> loadingMore st \<and> \<not> loading st
       \<and> truthy_uid u = Some uid"
  by (auto simp: observer_callback_def split: list.splits option.splits)

lemma observer_callback_cases:
  "observer_callback u st entries = Inl TypeError
   \<or> observer_callback u st entries = Inr []
   \<or> (\<exists>uid. observer_callback u st entries = Inr [LoadMoreOrders uid])"
  by (auto simp: observer_callback_def split: list.splits option.splits)

lemma deliver_entry_credit: "load_credit (deliver_entry u p) = load_credit p"
proof -
  consider (err) "observer_callback u (store p) [sentinel_visible p] = Inl TypeError"
    | (none) "observer_callback u (store p) [sentinel_visible p] = Inr []"
    | (one) uid where "observer_callback u (store p) [sentinel_visible p] = Inr [LoadMoreOrders uid]"
    using observer_callback_cases[of u "store p" "[sentinel_visible p]"] by blast
  then show ?thesis
  proof cases
    case err
    then show ?thesis by (simp add: deliver_entry_def)
  next
    case none
    then show ?thesis by (simp add: deliver_entry_def load_credit_def)
  next
    case one
    then have "\<not> loadingMore (store p)"
      by (simp add: observer_callback_call_iff)
    with one show ?thesis
      by (simp add: deliver_entry_def load_credit_def loadMore_count_def loadMoreOrders_begin_def)
  qed
qed

lemma scroll_step_credit:
  "load_credit (scroll_step u p ev) \<le> load_credit p + (if is_PageArrived ev then 1 else 0)"
proof (cases ev)
  case (SentinelVisibility b)
  have "load_credit (p\<lparr>sentinel_visible := b\<rparr>) = load_credit p" by (simp add: load_credit_def)
  then show ?thesis
    by (simp add: SentinelVisibility deliver_entry_credit)
next
  case (PageArrived page remaining)
  have "load_credit (p\<lparr>store := loadMoreOrders_done page remaining (store p)\<rparr>) \<le> load_credit p + 1"
    by (simp add: load_credit_def loadMoreOrders_done_def)
  then show ?thesis
    by (simp add: PageArrived Let_def deliver_entry_credit)
qed

lemma scroll_run_credit: "load_credit (scroll_run u p evs) \<le> load_credit p + pages_arrived evs"
proof (induction evs arbitrary: p)
  case Nil
  then show ?case by (simp add: scroll_run_def pages_arrived_def)
next
  case (Cons ev evs)
  have "load_credit (scroll_run u (scroll_step u p ev) evs)
          \<le> load_credit (scroll_step u p ev) + pages_arrived evs"
    by (rule Cons.IH)
  also have "\<dots> \<le> load_credit p + (if is_PageArrived ev then 1 else 0) + pages_arrived evs"
    using scroll_step_credit[of u p ev] by simp
  finally show ?case
    by (cases "is_PageArrived ev") (simp_all add: scroll_run_def pages_arrived_def)
qed

lemma deliver_entry_in_flight:
  "loadingMore (store p) \<Longrightarrow> deliver_entry u p = p"
  by (simp add: deliver_entry_def observer_callback_def)

lemma click_card_surface: "click_card ord CardSurface s = (s, fresh_event)"
  by (simp add: click_card_def handlers_on_path_def)

lemma click_track_order_row:
  "click_card ord TrackOrderRow s
     = (s\<lparr>selectedOrderId := Some (order_id ord), isTrackingOpen := True\<rparr>,
        fresh_event\<lparr>propagationStopped := True\<rparr>)"
  by (simp add: click_card_def handlers_on_path_def handleTrackOrderClick_def
      handleOrderClick_def)

lemma click_refresh_button:
  "click_card ord RefreshButton s
     = (s\<lparr>calls := calls s @ [RefreshSingleOrder (order_id ord)]\<rparr>,
        fresh_event\<lparr>propagationStopped := True\<rparr>)"
  by (simp add: click_card_def handlers_on_path_def handleSingleOrderRefresh_def)

section \<open>Reference list and product lookups: results\<close>

text \<open>
  C1 (as stated, refuted): for two loaded orders that contain the same product, one of them
  on two lines, the batch fetch issues three lookups of the one product id, and the
  reference list holds the same (productId, orderNumber) entry twice.
\<close>

theorem product_lookups_not_deduplicated_counterexample:
  "productPromises (allOrderItems ex_orders) = [''P1'', ''P1'', ''P1'']
   \<and> \<not> distinct (productPromises (allOrderItems ex_orders))
   \<and> \<not> distinct (allOrderItems ex_orders)"
  by (simp add: ex_orders_def allOrderItems_def productPromises_def)

text \<open>
  C1 (amended): the batch fetch issues one product lookup per entry of the reference list,
  that is one per line item of the loaded orders, in order and without deduplication; the
  ids looked up are exactly the product ids that occur. The reference list has one entry
  per line item, and it is free of duplicates exactly when no (productId, orderNumber)
  pair occurs on two line items.
\<close>

theorem product_lookups_per_line_item:
  "productPromises (allOrderItems os) = concat (map (\<lambda>ord. map productId (items ord)) os)
   \<and> set (productPromises (allOrderItems os)) = (\<Union>ord\<in>set os. productId ` set (items ord))
   \<and> length (allOrderItems os) = sum_list (map (\<lambda>ord. length (items ord)) os)
   \<and> (distinct (allOrderItems os)
        \<longleftrightarrow> distinct (concat (map (\<lambda>ord.
              map (\<lambda>item. (productId item, orderNumber ord)) (items ord)) os)))"
  using productPromises_allOrderItems[of os] set_productPromises[of os]
    length_allOrderItems[of os] distinct_allOrderItems[of os]
  by (intro conjI)

section \<open>Clicks on an order card: results\<close>

text \<open>
  C2 (the code at the failing input): a click on the surface of an order card, outside the
  refresh button, the rating section and the track-order row, meets no handler on its way
  up to the \<^verbatim>\<open>Card\<close>: the state is unchanged, the tracking view stays closed and no
  order is selected. The same click on the track-order row opens the view for the order.
\<close>

theorem card_surface_click_opens_nothing:
  "click_card delivered_order CardSurface (initial_state (Some ''u1''))
     = (initial_state (Some ''u1''), fresh_event)
   \<and> \<not> isTrackingOpen (fst (click_card delivered_order CardSurface (initial_state (Some ''u1''))))
   \<and> selectedOrderId (fst (click_card delivered_order CardSurface (initial_state (Some ''u1''))))
       = None
   \<and> isTrackingOpen (fst (click_card delivered_order TrackOrderRow (initial_state (Some ''u1''))))
   \<and> selectedOrderId (fst (click_card delivered_order TrackOrderRow (initial_state (Some ''u1''))))
       = Some ''id-a''"
  by (simp add: click_card_surface click_track_order_row initial_state_def delivered_order_def)

section \<open>Batch lookups and failures: results\<close>

text \<open>
  C3 (as stated, refuted): in a batch of two lookups where the first finds its product (or
  rating) and the second rejects, the entry of the first lookup is lost too: the product
  found does not reach the product list, which is empty on a first fetch and otherwise
  still what the last successful fetch gave, and the rating map is not filled.
\<close>

theorem batch_rejection_counterexample:
  "getProductById_rejecting ''P1'' = Resolved (Some milk)
   \<and> products_of_query None getProductById_rejecting ex_refs = []
   \<and> productMap (products_of_query None getProductById_rejecting ex_refs) ''P1'' = None
   \<and> products_of_query (Some [bread]) getProductById_rejecting ex_refs = [bread]
   \<and> productMap (products_of_query (Some [bread]) getProductById_rejecting ex_refs) ''P1'' = None
   \<and> getUserProductRating_rejecting ''u1'' ''P1'' ''A1'' = Resolved (Some 5)
   \<and> userRatings (loadUserRatings getUserProductRating_rejecting ex_refs (initial_state (Some ''u1'')))
        (ratingKey ''P1'' ''A1'') = None"
  by (simp add: getProductById_rejecting_def getUserProductRating_rejecting_def ex_refs_def
      products_of_query_def queryFn_def productPromises_def productMap_def loadUserRatings_def
      truthy_uid_def ratingPromise_def initial_state_def bread_def)

text \<open>
  C3 (amended): when no lookup of a batch rejects, a lookup that resolves to null is
  excluded alone: the product list holds exactly the products found, every pair whose
  rating was found has an entry in the rating map, and every entry of the rating map is
  a rating found for a pair with that key. When some lookup of a batch rejects, the whole
  batch is lost: the product list stays what the last successful fetch of the query gave,
  the empty list when there was none, and the component state is left as it was. In every
  case only the rating map of the component state can change, so no toast is shown and no
  error is surfaced.
\<close>

theorem batch_lookup_partial_results:
  "((\<forall>r\<in>set refs. getP (ref_productId r) \<noteq> Rejected) \<longrightarrow>
      set (products_of_query previous getP refs)
        = {p. \<exists>r\<in>set refs. getP (ref_productId r) = Resolved (Some p)})
   \<and> ((\<exists>r\<in>set refs'. getP' (ref_productId r) = Rejected) \<longrightarrow>
        products_of_query previous' getP' refs'
          = (case previous' of None \<Rightarrow> [] | Some ps \<Rightarrow> ps))
   \<and> (truthy_uid (user s) = Some uid
        \<and> (\<forall>r\<in>set refs. getR uid (ref_productId r) (ref_orderNumber r) \<noteq> Rejected) \<longrightarrow>
        (\<forall>r\<in>set refs. \<forall>v. getR uid (ref_productId r) (ref_orderNumber r) = Resolved (Some v) \<longrightarrow>
           userRatings (loadUserRatings getR refs s) (ref_key r) \<noteq> None)
        \<and> (refs \<noteq> [] \<longrightarrow>
             (\<forall>k v. userRatings (loadUserRatings getR refs s) k = Some v \<longrightarrow>
                (\<exists>r\<in>set refs. ref_key r = k
                   \<and> getR uid (ref_productId r) (ref_orderNumber r) = Resolved (Some v)))))
   \<and> (truthy_uid (user s) = Some uid
        \<and> (\<exists>r\<in>set refs'. getR' uid (ref_productId r) (ref_orderNumber r) = Rejected) \<longrightarrow>
        loadUserRatings getR' refs' s = s)
   \<and> loadUserRatings getR refs s = s\<lparr>userRatings := userRatings (loadUserRatings getR refs s)\<rparr>"
proof (intro conjI impI)
  assume "\<forall>r\<in>set refs. getP (ref_productId r) \<noteq> Rejected"
  then show "set (products_of_query previous getP refs)
        = {p. \<exists>r\<in>set refs. getP (ref_productId r) = Resolved (Some p)}"
    by (rule products_of_query_no_rejection)
next
  assume "\<exists>r\<in>set refs'. getP' (ref_productId r) = Rejected"
  then show "products_of_query previous' getP' refs'
          = (case previous' of None \<Rightarrow> [] | Some ps \<Rightarrow> ps)"
    by (rule products_of_query_rejection)
next
  assume a: "truthy_uid (user s) = Some uid
        \<and> (\<forall>r\<in>set refs. getR uid (ref_productId r) (ref_orderNumber r) \<noteq> Rejected)"
  then show "\<forall>r\<in>set refs. \<forall>v. getR uid (ref_productId r) (ref_orderNumber r) = Resolved (Some v) \<longrightarrow>
           userRatings (loadUserRatings getR refs s) (ref_key r) \<noteq> None"
    using loadUserRatings_defined[of s uid refs getR] by blast
next
  assume a: "truthy_uid (user s) = Some uid
        \<and> (\<forall>r\<in>set refs. getR uid (ref_productId r) (ref_orderNumber r) \<noteq> Rejected)"
    and ne: "refs \<noteq> []"
  then show "\<forall>k v. userRatings (loadUserRatings getR refs s) k = Some v \<longrightarrow>
                (\<exists>r\<in>set refs. ref_key r = k
                   \<and> getR uid (ref_productId r) (ref_orderNumber r) = Resolved (Some v))"
    using loadUserRatings_Some[of s uid refs getR] by blast
next
  assume "truthy_uid (user s) = Some uid
        \<and> (\<exists>r\<in>set refs'. getR' uid (ref_productId r) (ref_orderNumber r) = Rejected)"
  then show "loadUserRatings getR' refs' s = s"
    using loadUserRatings_rejection[of refs' getR' uid s] by blast
next
  show "loadUserRatings getR refs s = s\<lparr>userRatings := userRatings (loadUserRatings getR refs s)\<rparr>"
    by (rule loadUserRatings_only_ratings)
qed

theorem batch_lookup_partial_results_witness:
  "getProductById_missing ''P1'' \<noteq> Rejected \<and> getProductById_missing ''P2'' \<noteq> Rejected
   \<and> set (products_of_query (Some [bread]) getProductById_missing ex_refs) = {milk}
   \<and> getProductById_rejecting ''P2'' = Rejected
   \<and> products_of_query (Some [bread]) getProductById_rejecting ex_refs = [bread]
   \<and> truthy_uid (user (initial_state (Some ''u1''))) = Some ''u1''
   \<and> getUserProductRating_missing ''u1'' ''P1'' ''A1'' = Resolved (Some 5)
   \<and> getUserProductRating_missing ''u1'' ''P2'' ''A1'' = Resolved None
   \<and> userRatings (loadUserRatings getUserProductRating_missing ex_refs (initial_state (Some ''u1'')))
        (ratingKey ''P1'' ''A1'') = Some 5
   \<and> userRatings (loadUserRatings getUserProductRating_missing ex_refs (initial_state (Some ''u1'')))
        (ratingKey ''P2'' ''A1'') = None
   \<and> getUserProductRating_rejecting ''u1'' ''P2'' ''A1'' = Rejected
   \<and> loadUserRatings getUserProductRating_rejecting ex_refs (initial_state (Some ''u1''))
        = initial_state (Some ''u1'')"
  using batch_lookup_partial_results
    [where refs = ex_refs and getP = getProductById_missing and previous = "Some [bread]"
       and refs' = ex_refs and getP' = getProductById_rejecting and previous' = "Some [bread]"
       and s = "initial_state (Some ''u1'')" and uid = "''u1''"
       and getR = getUserProductRating_missing and getR' = getUserProductRating_rejecting]
  by (simp add: getProductById_rejecting_def getProductById_missing_def
      getUserProductRating_rejecting_def getUserProductRating_missing_def ex_refs_def
      products_of_query_def queryFn_def productPromises_def loadUserRatings_def
      truthy_uid_def ratingPromise_def initial_state_def ratingsMap_def ref_key_def ratingKey_def)

section \<open>Rating submission and later re-fetches: results\<close>

text \<open>
  C4 (as stated, refuted): the rating 4 of Milk in order A1 is submitted and the write
  succeeds. When a rating batch that resolves to null for the pair settles while the write
  is awaited, it replaces the rating map, and the success toast is shown with the pair
  unrated. When nothing runs during the await the map holds 4 for the pair, and a later
  re-fetch that resolves to null for the pair, or a re-fetch over a list of loaded items
  that no longer holds the pair, replaces the whole map: the pair is unrated again.
\<close>

theorem rating_lost_on_refetch_counterexample:
  "userRatings
      (fst (handleProductRating [milk_ref] (loadUserRatings getUserProductRating_none [milk_ref])
              (initial_state (Some ''u1'')) ''P1'' 4 fresh_event ''Milk'' ''A1'' (Resolved ())))
      (ratingKey ''P1'' ''A1'') = None
   \<and> toasts
      (fst (handleProductRating [milk_ref] (loadUserRatings getUserProductRating_none [milk_ref])
              (initial_state (Some ''u1'')) ''P1'' 4 fresh_event ''Milk'' ''A1'' (Resolved ())))
       = [ToastSuccess (thanks_message ''Milk'' 4) 3000]
   \<and> userRatings settled_state (ratingKey ''P1'' ''A1'') = Some 4
   \<and> userRatings (loadUserRatings getUserProductRating_none [milk_ref] settled_state)
        (ratingKey ''P1'' ''A1'') = None
   \<and> getUserProductRating_stored ''u1'' ''P1'' ''A1'' = Resolved (Some 4)
   \<and> userRatings (loadUserRatings getUserProductRating_stored [bread_ref] settled_state)
        (ratingKey ''P1'' ''A1'') = None"
  by (simp add: settled_state_def handleProductRating_def handleProductRating_start_def
      handleProductRating_settle_def awaiting_write_def initial_state_def truthy_uid_def
      loadUserRatings_def getUserProductRating_none_def getUserProductRating_stored_def
      milk_ref_def bread_ref_def ratingPromise_def ratingsMap_def ref_key_def ratingKey_def)

text \<open>
  C4 (amended): when the write of a submission that passed the two guards succeeds, the
  rating map is what the callbacks that ran during the await left of the map with the
  submitted value recorded for the pair; the settlement itself does not touch the map. So
  the pair holds the submitted value when nothing ran during the await, and more generally
  when what ran left the entry of the pair in place. A later re-fetch of the rating batch
  replaces the whole map by what it fetched: the pair keeps the value when the re-fetch
  covers the pair and returns that value for every item with the pair's key; the pair is
  unrated again when the re-fetch returns null for it; the map is left as it was when a
  lookup of the re-fetch rejects.
\<close>

theorem rating_success_then_refetch:
  "(truthy_uid (user s) = Some uid \<and> \<not> truthy_num (userRatings s (ratingKey pid ono)) \<longrightarrow>
      userRatings (fst (handleProductRating refs during s pid rating ev pname ono (Resolved ())))
        = userRatings (during (awaiting_write s uid pid rating ono))
      \<and> userRatings (awaiting_write s uid pid rating ono) (ratingKey pid ono) = Some rating
      \<and> userRatings (fst (handleProductRating refs id s pid rating ev pname ono (Resolved ())))
          (ratingKey pid ono) = Some rating
      \<and> (userRatings (during (awaiting_write s uid pid rating ono)) (ratingKey pid ono)
            = userRatings (awaiting_write s uid pid rating ono) (ratingKey pid ono) \<longrightarrow>
          userRatings (fst (handleProductRating refs during s pid rating ev pname ono (Resolved ())))
            (ratingKey pid ono) = Some rating))
   \<and> userRatings (handleProductRating_settle refs s1 pid rating pname ono (Resolved ()))
       = userRatings s1
   \<and> (truthy_uid (user s2) = Some uid2
        \<and> (\<forall>r\<in>set refs2. getR2 uid2 (ref_productId r) (ref_orderNumber r) \<noteq> Rejected)
        \<and> (\<exists>r\<in>set refs2. ref_key r = k2)
        \<and> (\<forall>r\<in>set refs2. ref_key r = k2 \<longrightarrow>
              getR2 uid2 (ref_productId r) (ref_orderNumber r) = Resolved (Some v2)) \<longrightarrow>
        userRatings (loadUserRatings getR2 refs2 s2) k2 = Some v2)
   \<and> (truthy_uid (user s3) = Some uid3 \<and> refs3 \<noteq> []
        \<and> (\<forall>r\<in>set refs3. getR3 uid3 (ref_productId r) (ref_orderNumber r) \<noteq> Rejected)
        \<and> (\<forall>r\<in>set refs3. ref_key r = k3 \<longrightarrow>
              getR3 uid3 (ref_productId r) (ref_orderNumber r) = Resolved None) \<longrightarrow>
        userRatings (loadUserRatings getR3 refs3 s3) k3 = None)
   \<and> (truthy_uid (user s4) = Some uid4
        \<and> (\<exists>r\<in>set refs4. getR4 uid4 (ref_productId r) (ref_orderNumber r) = Rejected) \<longrightarrow>
        loadUserRatings getR4 refs4 s4 = s4)"
proof (intro conjI impI)
  assume g: "truthy_uid (user s) = Some uid \<and> \<not> truthy_num (userRatings s (ratingKey pid ono))"
  then show m: "userRatings (fst (handleProductRating refs during s pid rating ev pname ono (Resolved ())))
        = userRatings (during (awaiting_write s uid pid rating ono))"
    using handleProductRating_passes[of s uid pid ono refs during rating ev pname "Resolved ()"]
    by (simp add: handleProductRating_settle_def)
  show a: "userRatings (awaiting_write s uid pid rating ono) (ratingKey pid ono) = Some rating"
    by (simp add: awaiting_write_def)
  from g show "userRatings (fst (handleProductRating refs id s pid rating ev pname ono (Resolved ())))
          (ratingKey pid ono) = Some rating"
    using handleProductRating_passes[of s uid pid ono refs id rating ev pname "Resolved ()"]
    by (simp add: handleProductRating_settle_def awaiting_write_def)
  assume "userRatings (during (awaiting_write s uid pid rating ono)) (ratingKey pid ono)
            = userRatings (awaiting_write s uid pid rating ono) (ratingKey pid ono)"
  with m a show "userRatings (fst (handleProductRating refs during s pid rating ev pname ono (Resolved ())))
            (ratingKey pid ono) = Some rating"
    by simp
next
  show "userRatings (handleProductRating_settle refs s1 pid rating pname ono (Resolved ()))
       = userRatings s1"
    by (simp add: handleProductRating_settle_def)
next
  assume "truthy_uid (user s2) = Some uid2
        \<and> (\<forall>r\<in>set refs2. getR2 uid2 (ref_productId r) (ref_orderNumber r) \<noteq> Rejected)
        \<and> (\<exists>r\<in>set refs2. ref_key r = k2)
        \<and> (\<forall>r\<in>set refs2. ref_key r = k2 \<longrightarrow>
              getR2 uid2 (ref_productId r) (ref_orderNumber r) = Resolved (Some v2))"
  then show "userRatings (loadUserRatings getR2 refs2 s2) k2 = Some v2"
    using loadUserRatings_same_value[of s2 uid2 refs2 getR2 k2 v2] by blast
next
  assume "truthy_uid (user s3) = Some uid3 \<and> refs3 \<noteq> []
        \<and> (\<forall>r\<in>set refs3. getR3 uid3 (ref_productId r) (ref_orderNumber r) \<noteq> Rejected)
        \<and> (\<forall>r\<in>set refs3. ref_key r = k3 \<longrightarrow>
              getR3 uid3 (ref_productId r) (ref_orderNumber r) = Resolved None)"
  then show "userRatings (loadUserRatings getR3 refs3 s3) k3 = None"
    using loadUserRatings_no_value[of s3 uid3 refs3 getR3 k3] by blast
next
  assume "truthy_uid (user s4) = Some uid4
        \<and> (\<exists>r\<in>set refs4. getR4 uid4 (ref_productId r) (ref_orderNumber r) = Rejected)"
  then show "loadUserRatings getR4 refs4 s4 = s4"
    using loadUserRatings_rejection[of refs4 getR4 uid4 s4] by blast
qed

theorem rating_success_then_refetch_witness:
  "truthy_uid (user (initial_state (Some ''u1''))) = Some ''u1''
   \<and> \<not> truthy_num (userRatings (initial_state (Some ''u1'')) (ratingKey ''P1'' ''A1''))
   \<and> userRatings
        (fst (handleProductRating [milk_ref]
                (loadUserRatings getUserProductRating_stored [milk_ref, bread_ref])
                (initial_state (Some ''u1'')) ''P1'' 4 fresh_event ''Milk'' ''A1'' (Resolved ())))
        (ratingKey ''P1'' ''A1'') = Some 4
   \<and> userRatings settled_state (ratingKey ''P1'' ''A1'') = Some 4
   \<and> truthy_uid (user settled_state) = Some ''u1''
   \<and> getUserProductRating_stored ''u1'' ''P1'' ''A1'' = Resolved (Some 4)
   \<and> getUserProductRating_stored ''u1'' ''P2'' ''B2'' = Resolved None
   \<and> ref_key milk_ref = ratingKey ''P1'' ''A1'' \<and> ref_key bread_ref \<noteq> ratingKey ''P1'' ''A1''
   \<and> userRatings (loadUserRatings getUserProductRating_stored [milk_ref, bread_ref] settled_state)
        (ratingKey ''P1'' ''A1'') = Some 4
   \<and> userRatings (loadUserRatings getUserProductRating_none [milk_ref, bread_ref] settled_state)
        (ratingKey ''P1'' ''A1'') = None
   \<and> getUserProductRating_rejecting ''u1'' ''P2'' ''A1'' = Rejected
   \<and> loadUserRatings getUserProductRating_rejecting ex_refs settled_state = settled_state"
  using rating_success_then_refetch
    [where s = "initial_state (Some ''u1'')" and uid = "''u1''" and pid = "''P1''"
       and ono = "''A1''" and refs = "[milk_ref]" and rating = 4 and ev = fresh_event
       and pname = "''Milk''"
       and during = "loadUserRatings getUserProductRating_stored [milk_ref, bread_ref]"
       and ?s1.0 = submitting_state
       and ?s2.0 = settled_state and ?uid2.0 = "''u1''" and ?refs2.0 = "[milk_ref, bread_ref]"
       and ?getR2.0 = getUserProductRating_stored and ?k2.0 = "ratingKey ''P1'' ''A1''"
       and ?v2.0 = 4
       and ?s3.0 = settled_state and ?uid3.0 = "''u1''" and ?refs3.0 = "[milk_ref, bread_ref]"
       and ?getR3.0 = getUserProductRating_none and ?k3.0 = "ratingKey ''P1'' ''A1''"
       and ?s4.0 = settled_state and ?uid4.0 = "''u1''" and ?refs4.0 = ex_refs
       and ?getR4.0 = getUserProductRating_rejecting]
  by (simp add: settled_state_def handleProductRating_def handleProductRating_start_def
      handleProductRating_settle_def awaiting_write_def initial_state_def truthy_uid_def
      truthy_num_def loadUserRatings_def ratingPromise_def ratingsMap_def
      getUserProductRating_none_def getUserProductRating_stored_def
      getUserProductRating_rejecting_def milk_ref_def bread_ref_def ex_refs_def
      ref_key_def ratingKey_def submitting_state_def)

section \<open>Interactivity of the rating control: results\<close>

text \<open>
  C5 (as stated, refuted): the list of order cards is on screen; for the line item of a
  delivered order with no rating in the rating map and no submission in flight, the rating
  control is not interactive when the product record of the item is not in the product
  map: the rating section is not rendered at all.
\<close>

theorem rating_control_needs_product_counterexample:
  "content_view list_store = OrderList
   \<and> delivered_order \<in> set (orders list_store) \<and> milk_item \<in> set (items delivered_order)
   \<and> status delivered_order = ''delivered''
   \<and> userRatings (initial_state (Some ''u1''))
        (ratingKey (productId milk_item) (orderNumber delivered_order)) = None
   \<and> \<not> is_rating_loading (initial_state (Some ''u1'')) delivered_order milk_item
   \<and> \<not> rating_control_interactive
          (render_rating_section list_store Map.empty (initial_state (Some ''u1''))
             delivered_order milk_item)"
  by (simp add: list_store_def content_view_def truthy_str_def delivered_order_def milk_item_def
      initial_state_def is_rating_loading_def no_rating_loading_def
      rating_control_interactive_def render_rating_section_def rating_block_def)

text \<open>
  C5 (amended): for every line item of every loaded order, the rating control is interactive
  if and only if the list of order cards is the content on screen (the error view, shown
  while an error is on record and no load is in flight, is not), the product record of the
  item is in the product map, the status of the owning order is \<^verbatim>\<open>delivered\<close>, the rating
  map holds no rating for the key of the pair (a stored 0 counts as none) and the in-flight
  slot does not hold exactly this pair. No control is interactive for anything that is not
  a line item of a loaded order.
\<close>

theorem rating_control_interactive_iff:
  "(ord \<in> set (orders st) \<and> item \<in> set (items ord) \<longrightarrow>
      (rating_control_interactive (render_rating_section st pm s ord item)
       \<longleftrightarrow> \<not> (truthy_str (error st) \<and> \<not> loading st)
           \<and> pm (productId item) \<noteq> None
           \<and> status ord = ''delivered''
           \<and> \<not> truthy_num (userRatings s (ratingKey (productId item) (orderNumber ord)))
           \<and> productRatingLoading s
                \<noteq> \<lparr>orderID = orderNumber ord, loading_productId = productId item\<rparr>))
   \<and> (\<not> (ord' \<in> set (orders st) \<and> item' \<in> set (items ord')) \<longrightarrow>
        \<not> rating_control_interactive (render_rating_section st pm s ord' item'))"
proof (intro conjI impI)
  assume m: "ord \<in> set (orders st) \<and> item \<in> set (items ord)"
  then have "content_view st = OrderList \<longleftrightarrow> \<not> (truthy_str (error st) \<and> \<not> loading st)"
    using content_view_loaded[of ord st] by simp
  with m show "rating_control_interactive (render_rating_section st pm s ord item)
       \<longleftrightarrow> \<not> (truthy_str (error st) \<and> \<not> loading st)
           \<and> pm (productId item) \<noteq> None
           \<and> status ord = ''delivered''
           \<and> \<not> truthy_num (userRatings s (ratingKey (productId item) (orderNumber ord)))
           \<and> productRatingLoading s
                \<noteq> \<lparr>orderID = orderNumber ord, loading_productId = productId item\<rparr>"
    by (simp only: render_rating_section_interactive_iff simp_thms)
next
  assume "\<not> (ord' \<in> set (orders st) \<and> item' \<in> set (items ord'))"
  then show "\<not> rating_control_interactive (render_rating_section st pm s ord' item')"
    by (simp only: render_rating_section_interactive_iff) blast
qed

theorem rating_control_interactive_iff_witness:
  "delivered_order \<in> set (orders list_store) \<and> milk_item \<in> set (items delivered_order)
   \<and> milk_products (productId milk_item) \<noteq> None
   \<and> status delivered_order = ''delivered''
   \<and> rating_control_interactive
        (render_rating_section list_store milk_products (initial_state (Some ''u1''))
           delivered_order milk_item)
   \<and> truthy_str (error error_store) \<and> \<not> loading error_store
   \<and> \<not> rating_control_interactive
          (render_rating_section error_store milk_products (initial_state (Some ''u1''))
             delivered_order milk_item)
   \<and> \<not> rating_control_interactive
          (render_rating_section list_store milk_products submitting_state delivered_order milk_item)
   \<and> \<not> rating_control_interactive
          (render_rating_section list_store milk_products rated_state delivered_order milk_item)
   \<and> placed_order \<notin> set (orders list_store)
   \<and> \<not> rating_control_interactive
          (render_rating_section list_store milk_products (initial_state (Some ''u1''))
             placed_order milk_item)"
  using rating_control_interactive_iff
    [where st = list_store and pm = milk_products and s = "initial_state (Some ''u1'')"
       and ord = delivered_order and item = milk_item and ord' = placed_order
       and item' = milk_item]
    rating_control_interactive_iff
    [where st = error_store and pm = milk_products and s = "initial_state (Some ''u1'')"
       and ord = delivered_order and item = milk_item and ord' = placed_order
       and item' = milk_item]
    rating_control_interactive_iff
    [where st = list_store and pm = milk_products and s = submitting_state
       and ord = delivered_order and item = milk_item and ord' = placed_order
       and item' = milk_item]
    rating_control_interactive_iff
    [where st = list_store and pm = milk_products and s = rated_state
       and ord = delivered_order and item = milk_item and ord' = placed_order
       and item' = milk_item]
  by (simp add: milk_products_def productMap_def milk_item_def delivered_order_def
      placed_order_def list_store_def error_store_def truthy_str_def
      initial_state_def submitting_state_def rated_state_def no_rating_loading_def
      truthy_num_def ratingKey_def)

section \<open>Guards of a rating submission: results\<close>

text \<open>
  C6: when the rating map already holds a rating (a non-zero number) for the pair, a
  submission by an authenticated user issues no call and changes no state cell; it only
  shows the info toast whose text holds the existing rating value. When no user is
  authenticated, the submission issues no call and changes no state cell; it only shows the
  login toast. In both cases the handler stops the propagation of the event, and it returns
  before it awaits anything.
\<close>

theorem rating_preconditions_reject:
  "(truthy_uid (user s) = Some uid \<and> userRatings s (ratingKey pid ono) = Some v \<and> v \<noteq> 0 \<longrightarrow>
      handleProductRating refs during s pid rating ev pname ono written
        = (s\<lparr>toasts := toasts s @ [ToastInfo (already_rated_message pname v)]\<rparr>,
           ev\<lparr>propagationStopped := True, defaultPrevented := True\<rparr>)
      \<and> calls (fst (handleProductRating refs during s pid rating ev pname ono written)) = calls s
      \<and> userRatings (fst (handleProductRating refs during s pid rating ev pname ono written))
          = userRatings s
      \<and> productRatingLoading (fst (handleProductRating refs during s pid rating ev pname ono written))
          = productRatingLoading s
      \<and> already_rated_message pname v
          = ''You already rated '' @ dquote @ pname @ dquote @ '' with '' @ string_of_int v @ '' stars'')
   \<and> (truthy_uid (user s') = None \<longrightarrow>
        handleProductRating refs during s' pid rating ev pname ono written
          = (s'\<lparr>toasts := toasts s' @ [ToastError ''Please login to rate products'']\<rparr>,
             ev\<lparr>propagationStopped := True, defaultPrevented := True\<rparr>)
        \<and> calls (fst (handleProductRating refs during s' pid rating ev pname ono written)) = calls s'
        \<and> userRatings (fst (handleProductRating refs during s' pid rating ev pname ono written))
            = userRatings s'
        \<and> productRatingLoading (fst (handleProductRating refs during s' pid rating ev pname ono written))
            = productRatingLoading s')"
  by (simp add: handleProductRating_def handleProductRating_start_def already_rated_message_def)

theorem rating_preconditions_reject_witness:
  "truthy_uid (user rated_state) = Some ''u1''
   \<and> userRatings rated_state (ratingKey ''P1'' ''A1'') = Some 4
   \<and> fst (handleProductRating [] id rated_state ''P1'' 5 fresh_event ''Milk'' ''A1'' (Resolved ()))
       = rated_state\<lparr>toasts := [ToastInfo (''You already rated '' @ dquote @ ''Milk'' @ dquote @ '' with 4 stars'')]\<rparr>
   \<and> calls (fst (handleProductRating [] id rated_state ''P1'' 5 fresh_event ''Milk'' ''A1'' (Resolved ()))) = []
   \<and> truthy_uid (user (initial_state None)) = None
   \<and> fst (handleProductRating [] id (initial_state None) ''P1'' 5 fresh_event ''Milk'' ''A1'' (Resolved ()))
       = (initial_state None)\<lparr>toasts := [ToastError ''Please login to rate products'']\<rparr>"
  using rating_preconditions_reject
    [where s = rated_state and uid = "''u1''" and pid = "''P1''" and ono = "''A1''"
       and v = 4 and s' = "initial_state None" and refs = "[]" and rating = 5
       and ev = fresh_event and pname = "''Milk''" and written = "Resolved ()" and during = id]
  by (simp add: rated_state_def initial_state_def truthy_uid_def already_rated_message_def
      string_of_int_4)

section \<open>Failure of the remote write: results\<close>




section \<open>Infinite scroll: results\<close>

text \<open>
  C8 (as stated, refuted): the sentinel becomes visible once and stays visible; the first
  report of the observer requests a page, and when that page arrives with more pages
  remaining the effect runs again, the new observer reports the sentinel as visible and a
  second page is requested: two calls of \<^verbatim>\<open>loadMoreOrders\<close> for one transition from not
  visible to visible.
\<close>

theorem load_more_twice_counterexample:
  "became_visible_count (sentinel_visible first_page_pager) short_page_events = 1
   \<and> store_calls (scroll_run (Some ''u1'') first_page_pager short_page_events)
       = [LoadMoreOrders ''u1'', LoadMoreOrders ''u1'']
   \<and> loadMore_count (store_calls (scroll_run (Some ''u1'') first_page_pager short_page_events)) = 2"
  by (simp add: first_page_pager_def short_page_events_def scroll_run_def deliver_entry_def
      observer_callback_def truthy_uid_def loadMoreOrders_begin_def loadMoreOrders_done_def
      loadMore_count_def)

text \<open>
  C8 (amended): the observer callback calls \<^verbatim>\<open>loadMoreOrders\<close> exactly when its first
  entry is intersecting, \<^verbatim>\<open>hasMore\<close> holds, neither a load-more nor an initial load is in
  flight and a user is authenticated; one delivery of the callback makes at most one call,
  and none when \<^verbatim>\<open>hasMore\<close> is false. While a load-more is in flight a report of the
  sentinel makes no call, so along any run the number of calls is at most one more than the
  number of pages that arrived: at most one call per load, not per transition of the
  sentinel.
\<close>

theorem load_more_guard:
  "(observer_callback u st entries = Inr [LoadMoreOrders uid]
      \<longleftrightarrow> (\<exists>rest. entries = True # rest) \<and> hasMore st \<and> \<not> loadingMore st \<and> \<not> loading st
          \<and> truthy_uid u = Some uid)
   \<and> (observer_callback u st entries = Inl TypeError
        \<or> observer_callback u st entries = Inr []
        \<or> (\<exists>uid'. observer_callback u st entries = Inr [LoadMoreOrders uid']))
   \<and> (\<not> hasMore st \<longrightarrow> observer_callback u st entries \<noteq> Inr [LoadMoreOrders uid])
   \<and> (loadingMore (store p) \<longrightarrow>
        store_calls (scroll_step u p (SentinelVisibility b)) = store_calls p)
   \<and> (\<not> loadingMore (store p') \<longrightarrow>
        loadMore_count (store_calls (scroll_run u p' evs))
          \<le> loadMore_count (store_calls p') + 1 + pages_arrived evs)"
proof (intro conjI impI)
  show "observer_callback u st entries = Inr [LoadMoreOrders uid]
      \<longleftrightarrow> (\<exists>rest. entries = True # rest) \<and> hasMore st \<and> \<not> loadingMore st \<and> \<not> loading st
          \<and> truthy_uid u = Some uid"
    by (rule observer_callback_call_iff)
next
  show "observer_callback u st entries = Inl TypeError
        \<or> observer_callback u st entries = Inr []
        \<or> (\<exists>uid'. observer_callback u st entries = Inr [LoadMoreOrders uid'])"
    by (rule observer_callback_cases)
next
  assume "\<not> hasMore st"
  then show "observer_callback u st entries \<noteq> Inr [LoadMoreOrders uid]"
    by (simp add: observer_callback_call_iff)
next
  assume "loadingMore (store p)"
  then show "store_calls (scroll_step u p (SentinelVisibility b)) = store_calls p"
    using deliver_entry_in_flight[of "p\<lparr>sentinel_visible := b\<rparr>" u] by simp
next
  assume "\<not> loadingMore (store p')"
  then have "load_credit p' = loadMore_count (store_calls p') + 1"
    by (simp add: load_credit_def)
  moreover have "loadMore_count (store_calls (scroll_run u p' evs)) \<le> load_credit (scroll_run u p' evs)"
    by (simp add: load_credit_def)
  ultimately show "loadMore_count (store_calls (scroll_run u p' evs))
          \<le> loadMore_count (store_calls p') + 1 + pages_arrived evs"
    using scroll_run_credit[of u p' evs] by simp
qed

theorem load_more_guard_witness:
  "observer_callback (Some ''u1'') (store first_page_pager) [True] = Inr [LoadMoreOrders ''u1'']
   \<and> \<not> hasMore last_page_store
   \<and> observer_callback (Some ''u1'') last_page_store [True] = Inr []
   \<and> loadingMore (store in_flight_pager)
   \<and> store_calls (scroll_step (Some ''u1'') in_flight_pager (SentinelVisibility True))
       = [LoadMoreOrders ''u1'']
   \<and> \<not> loadingMore (store first_page_pager)
   \<and> loadMore_count (store_calls (scroll_run (Some ''u1'') first_page_pager short_page_events)) = 2
   \<and> loadMore_count (store_calls first_page_pager) = 0
   \<and> pages_arrived short_page_events = 1"
  using load_more_guard
    [where u = "Some ''u1''" and st = last_page_store and entries = "[True]" and uid = "''u1''"
       and p = in_flight_pager and b = True and p' = first_page_pager and evs = short_page_events]
  by (simp add: first_page_pager_def last_page_store_def in_flight_pager_def
      short_page_events_def scroll_run_def deliver_entry_def observer_callback_def
      truthy_uid_def loadMoreOrders_begin_def loadMoreOrders_done_def loadMore_count_def
      pages_arrived_def)

section \<open>Status presentation: results\<close>

text \<open>
  C9: the three status-presentation functions are total, each one a switch with a default
  branch. For any status value outside the statuses that the data model enumerates, the
  icon is the neutral icon, the badge emphasis is the neutral \<^verbatim>\<open>outline\<close> and the label is
  the raw status string unchanged.
\<close>

theorem status_presentation_fallback:
  "st \<notin> set order_statuses \<longrightarrow>
     getStatusIcon st = neutral_icon \<and> getStatusVariant st = ''outline''
     \<and> getStatusText st = st"
  by (simp add: order_statuses_def getStatusIcon_def getStatusVariant_def getStatusText_def
      neutral_icon_def)

theorem status_presentation_fallback_witness:
  "''shipped'' \<notin> set order_statuses
   \<and> getStatusIcon ''shipped'' = neutral_icon
   \<and> getStatusVariant ''shipped'' = ''outline''
   \<and> getStatusText ''shipped'' = ''shipped''
   \<and> [] \<notin> set order_statuses
   \<and> getStatusIcon [] = neutral_icon \<and> getStatusVariant [] = ''outline'' \<and> getStatusText [] = []"
  using status_presentation_fallback [of "''shipped''"] status_presentation_fallback [of "[]"]
  by (simp add: order_statuses_def)

section \<open>The in-flight slot: results\<close>

text \<open>
  C10 (as stated, refuted): a delivered order holds the same product on two lines; while the
  rating of that product in that order awaits its write, the slot holds one pair and the
  saving indicator is shown on both line items at once.
\<close>

theorem two_saving_indicators_counterexample:
  "productRatingLoading submitting_state = \<lparr>orderID = ''A1'', loading_productId = ''P1''\<rparr>
   \<and> milk_item \<noteq> milk_gift_item
   \<and> saving_indicators double_line_store milk_products submitting_state
       = [(double_line_order, milk_item), (double_line_order, milk_gift_item)]
   \<and> length (saving_indicators double_line_store milk_products submitting_state) = 2"
  by (simp add: saving_indicators_def double_line_store_def list_store_def content_view_def
      truthy_str_def double_line_order_def milk_item_def milk_gift_item_def milk_products_def
      productMap_def submitting_state_def initial_state_def rating_block_def
      is_rating_loading_def Let_def)

text \<open>
  C10 (amended): the in-flight state is one slot holding at most one (productId,
  orderNumber) pair. A submission that passes the guards overwrites the slot with its own
  pair, whatever the slot held; the completion of any submission, resolved or rejected,
  resets the slot to the empty pair, whatever the slot held and whatever ran during the
  await. The saving indicator is shown on exactly the rendered line items that carry the
  pair in the slot: at most one pair's indicator is shown at any moment, on every line
  item with that pair, and under the empty slot no line item with a non-empty identifier
  shows it.
\<close>

theorem rating_loading_single_slot:
  "(truthy_uid (user s) = Some uid \<and> \<not> truthy_num (userRatings s (ratingKey pid ono)) \<longrightarrow>
      fst (handleProductRating_start s pid rating ev pname ono)
        = Awaiting (awaiting_write s uid pid rating ono)
      \<and> productRatingLoading (awaiting_write s uid pid rating ono)
          = \<lparr>orderID = ono, loading_productId = pid\<rparr>
      \<and> handleProductRating refs during s pid rating ev pname ono written
          = (handleProductRating_settle refs (during (awaiting_write s uid pid rating ono))
               pid rating pname ono written,
             ev\<lparr>propagationStopped := True, defaultPrevented := True\<rparr>)
      \<and> productRatingLoading (fst (handleProductRating refs during s pid rating ev pname ono written))
          = no_rating_loading)
   \<and> productRatingLoading (handleProductRating_settle refs s2 pid2 rating2 pname2 ono2 written)
       = no_rating_loading
   \<and> ((ord, item) \<in> set (saving_indicators st pm s3)
        \<longleftrightarrow> content_view st = OrderList \<and> ord \<in> set (orders st) \<and> item \<in> set (items ord)
            \<and> pm (productId item) \<noteq> None \<and> status ord = ''delivered''
            \<and> productRatingLoading s3
                 = \<lparr>orderID = orderNumber ord, loading_productId = productId item\<rparr>)
   \<and> ((ord1, item1) \<in> set (saving_indicators st pm s3)
        \<and> (ord2, item2) \<in> set (saving_indicators st pm s3) \<longrightarrow>
        productId item1 = productId item2 \<and> orderNumber ord1 = orderNumber ord2)
   \<and> (productRatingLoading s4 = no_rating_loading
        \<and> (productId item \<noteq> [] \<or> orderNumber ord \<noteq> []) \<longrightarrow>
        (ord, item) \<notin> set (saving_indicators st pm s4))"
proof (intro conjI impI)
  assume g: "truthy_uid (user s) = Some uid \<and> \<not> truthy_num (userRatings s (ratingKey pid ono))"
  then show "fst (handleProductRating_start s pid rating ev pname ono)
        = Awaiting (awaiting_write s uid pid rating ono)"
    using handleProductRating_start_passes[of s uid pid ono rating ev pname] by simp
  show "productRatingLoading (awaiting_write s uid pid rating ono)
          = \<lparr>orderID = ono, loading_productId = pid\<rparr>"
    by (simp add: awaiting_write_def)
  from g show h: "handleProductRating refs during s pid rating ev pname ono written
          = (handleProductRating_settle refs (during (awaiting_write s uid pid rating ono))
               pid rating pname ono written,
             ev\<lparr>propagationStopped := True, defaultPrevented := True\<rparr>)"
    using handleProductRating_passes[of s uid pid ono refs during rating ev pname written] by simp
  show "productRatingLoading (fst (handleProductRating refs during s pid rating ev pname ono written))
          = no_rating_loading"
    by (simp add: h handleProductRating_settle_def split: outcome.splits)
next
  show "productRatingLoading (handleProductRating_settle refs s2 pid2 rating2 pname2 ono2 written)
       = no_rating_loading"
    by (simp add: handleProductRating_settle_def split: outcome.splits)
next
  show "(ord, item) \<in> set (saving_indicators st pm s3)
        \<longleftrightarrow> content_view st = OrderList \<and> ord \<in> set (orders st) \<and> item \<in> set (items ord)
            \<and> pm (productId item) \<noteq> None \<and> status ord = ''delivered''
            \<and> productRatingLoading s3
                 = \<lparr>orderID = orderNumber ord, loading_productId = productId item\<rparr>"
    by (rule saving_indicators_iff)
next
  assume a: "(ord1, item1) \<in> set (saving_indicators st pm s3)
        \<and> (ord2, item2) \<in> set (saving_indicators st pm s3)"
  from a have e1: "productRatingLoading s3
               = \<lparr>orderID = orderNumber ord1, loading_productId = productId item1\<rparr>"
    using saving_indicators_iff[of ord1 item1 st pm s3] by blast
  from a have e2: "productRatingLoading s3
               = \<lparr>orderID = orderNumber ord2, loading_productId = productId item2\<rparr>"
    using saving_indicators_iff[of ord2 item2 st pm s3] by blast
  from e1 e2 have "\<lparr>orderID = orderNumber ord1, loading_productId = productId item1\<rparr>
               = \<lparr>orderID = orderNumber ord2, loading_productId = productId item2\<rparr>"
    by simp
  then show "productId item1 = productId item2" and "orderNumber ord1 = orderNumber ord2"
    by simp_all
next
  assume "productRatingLoading s4 = no_rating_loading
        \<and> (productId item \<noteq> [] \<or> orderNumber ord \<noteq> [])"
  then show "(ord, item) \<notin> set (saving_indicators st pm s4)"
    by (auto simp: saving_indicators_iff no_rating_loading_def)
qed

theorem rating_loading_single_slot_witness:
  "truthy_uid (user (initial_state (Some ''u1''))) = Some ''u1''
   \<and> \<not> truthy_num (userRatings (initial_state (Some ''u1'')) (ratingKey ''P1'' ''A1''))
   \<and> productRatingLoading (awaiting_write (initial_state (Some ''u1'')) ''u1'' ''P1'' 4 ''A1'')
       = \<lparr>orderID = ''A1'', loading_productId = ''P1''\<rparr>
   \<and> productRatingLoading
        (fst (handleProductRating [milk_ref] id (initial_state (Some ''u1'')) ''P1'' 4 fresh_event
                ''Milk'' ''A1'' Rejected))
       = no_rating_loading
   \<and> productRatingLoading
        (handleProductRating_settle [milk_ref] submitting_state ''P2'' 3 ''Bread'' ''B2'' Rejected)
       = no_rating_loading
   \<and> (double_line_order, milk_item)
        \<in> set (saving_indicators double_line_store milk_products submitting_state)
   \<and> (double_line_order, milk_gift_item)
        \<in> set (saving_indicators double_line_store milk_products submitting_state)
   \<and> milk_item \<noteq> milk_gift_item
   \<and> productId milk_item = productId milk_gift_item
   \<and> productRatingLoading (initial_state (Some ''u1'')) = no_rating_loading
   \<and> productId milk_item \<noteq> []
   \<and> (double_line_order, milk_item)
        \<notin> set (saving_indicators double_line_store milk_products (initial_state (Some ''u1'')))"
  using rating_loading_single_slot
    [where s = "initial_state (Some ''u1'')" and uid = "''u1''" and pid = "''P1''"
       and ono = "''A1''" and rating = 4 and ev = fresh_event and pname = "''Milk''"
       and refs = "[milk_ref]" and during = id and written = Rejected
       and ?s2.0 = submitting_state and ?pid2.0 = "''P2''"
       and ?rating2.0 = 3 and ?pname2.0 = "''Bread''" and ?ono2.0 = "''B2''"
       and ?ord1.0 = double_line_order and ?item1.0 = milk_item
       and ?ord2.0 = double_line_order and ?item2.0 = milk_gift_item and pm = milk_products
       and st = double_line_store and ?s3.0 = submitting_state
       and ?s4.0 = "initial_state (Some ''u1'')" and ord = double_line_order
       and item = milk_item]
  by (simp add: initial_state_def truthy_uid_def truthy_num_def submitting_state_def
      saving_indicators_iff no_rating_loading_def milk_item_def milk_gift_item_def
      double_line_order_def double_line_store_def list_store_def content_view_def
      truthy_str_def milk_products_def productMap_def handleProductRating_def
      handleProductRating_start_def handleProductRating_settle_def awaiting_write_def)

end
